theory Spec2Isabelle
  imports Main
begin

section \<open>The logging configuration of the LFN Audio Toolkit (lfn\_logging.py)\<close>

text \<open>
  A shallow embedding of \<^verbatim>\<open>src/lfn_logging.py\<close>. The module configures loggers of
  Python's standard \<^verbatim>\<open>logging\<close> package; the parts of that package and of
  \<^verbatim>\<open>pathlib\<close> and \<^verbatim>\<open>os\<close> that the module calls are modelled beside it
  (POSIX flavour of \<^verbatim>\<open>pathlib\<close>). Everything the module reads or changes outside its
  arguments (environment variables, the file system, the clock, standard output, the
  logger registry of the \<^verbatim>\<open>logging\<close> package) is a field of the record \<open>world\<close>,
  passed in and returned.
\<close>

subsection \<open>Strings\<close>

text \<open>\<^verbatim>\<open>str.upper\<close>, on the ASCII letters (environment values are byte strings here).\<close>

definition upper_char :: "char \<Rightarrow> char" where
  "upper_char c =
     (case map_of (zip ''abcdefghijklmnopqrstuvwxyz'' ''ABCDEFGHIJKLMNOPQRSTUVWXYZ'') c of
        Some u \<Rightarrow> u
      | None \<Rightarrow> c)"

definition upper :: "string \<Rightarrow> string" where
  "upper s = map upper_char s"

text \<open>\<^verbatim>\<open>s.startswith(p)\<close> and the substring test \<^verbatim>\<open>sub in s\<close>.\<close>

fun startswith :: "string \<Rightarrow> string \<Rightarrow> bool" where
  "startswith s [] = True"
| "startswith [] (p # ps) = False"
| "startswith (c # cs) (p # ps) = (c = p \<and> startswith cs ps)"

fun contains :: "string \<Rightarrow> string \<Rightarrow> bool" where
  "contains [] sub = (sub = [])"
| "contains (c # cs) sub = (startswith (c # cs) sub \<or> contains cs sub)"

text \<open>
  \<^verbatim>\<open>s.replace(old, new)\<close>: every non-overlapping occurrence of \<open>old\<close>, found from the
  left, is replaced. With an empty \<open>old\<close> Python puts \<open>new\<close> before every character and
  at the end.
\<close>

function replace_from :: "string \<Rightarrow> string \<Rightarrow> string \<Rightarrow> string" where
  "replace_from old new [] = []"
| "replace_from old new (c # cs) =
     (if old \<noteq> [] \<and> startswith (c # cs) old
      then new @ replace_from old new (drop (length old) (c # cs))
      else c # replace_from old new cs)"
  by pat_completeness auto
termination
  by (relation "measure (\<lambda>(old, new, s). length s)") auto

definition replace :: "string \<Rightarrow> string \<Rightarrow> string \<Rightarrow> string" where
  "replace s old new =
     (if old = [] then new @ concat (map (\<lambda>c. c # new) s) else replace_from old new s)"

text \<open>\<^verbatim>\<open>s.split(d)\<close> for a one-character separator.\<close>

fun split :: "char \<Rightarrow> string \<Rightarrow> string list" where
  "split d [] = [[]]"
| "split d (c # cs) =
     (if c = d then [] # split d cs
      else (case split d cs of [] \<Rightarrow> [[c]] | x # xs \<Rightarrow> (c # x) # xs))"

text \<open>Decimal numerals: \<^verbatim>\<open>%d\<close>, and the zero-padded fields of \<^verbatim>\<open>strftime\<close>.\<close>

definition digit :: "nat \<Rightarrow> char" where
  "digit n = ''0123456789'' ! (n mod 10)"

function str_nat :: "nat \<Rightarrow> string" where
  "str_nat n = (if n < 10 then [digit n] else str_nat (n div 10) @ [digit n])"
  by pat_completeness auto
termination
  by (relation "measure id") auto

definition pad2 :: "nat \<Rightarrow> string" where
  "pad2 n = [digit (n div 10), digit n]"

definition pad4 :: "nat \<Rightarrow> string" where
  "pad4 n = [digit (n div 1000), digit (n div 100), digit (n div 10), digit n]"

subsection \<open>Severities\<close>

text \<open>
  The five levels of \<^verbatim>\<open>logging\<close> and their numbers (\<^verbatim>\<open>logging.DEBUG\<close> is 10, ...,
  \<^verbatim>\<open>logging.CRITICAL\<close> is 50). Loggers and handlers store the number.
\<close>

datatype severity = DEBUG | INFO | WARNING | ERROR | CRITICAL

fun level_number :: "severity \<Rightarrow> int" where
  "level_number DEBUG = 10"
| "level_number INFO = 20"
| "level_number WARNING = 30"
| "level_number ERROR = 40"
| "level_number CRITICAL = 50"

fun getLevelName :: "severity \<Rightarrow> string" where
  "getLevelName DEBUG = ''DEBUG''"
| "getLevelName INFO = ''INFO''"
| "getLevelName WARNING = ''WARNING''"
| "getLevelName ERROR = ''ERROR''"
| "getLevelName CRITICAL = ''CRITICAL''"

definition DEFAULT_LOG_LEVEL :: severity where
  "DEFAULT_LOG_LEVEL = INFO"

definition DEFAULT_LOG_DIR :: string where
  "DEFAULT_LOG_DIR = ''logs''"

definition MAX_LOG_SIZE :: nat where
  "MAX_LOG_SIZE = 10 * 1024 * 1024"

definition BACKUP_COUNT :: nat where
  "BACKUP_COUNT = 5"

subsection \<open>Paths\<close>

text \<open>
  A \<^verbatim>\<open>pathlib.PurePosixPath\<close>: whether it is absolute, and its segments. Parsing a string
  drops empty segments and \<^verbatim>\<open>.\<close> segments, so two spellings of one path are equal
  values, as they are equal \<^verbatim>\<open>Path\<close> objects. (The POSIX special case of exactly two
  leading slashes is not modelled.) On Windows \<^verbatim>\<open>pathlib\<close> has other paths, with
  drives, a second separator and a comparison that ignores case: what is proved below
  about which paths are equal is proved for worlds whose platform is not \<^verbatim>\<open>win32\<close>.
\<close>

datatype path = PosixPath (is_absolute: bool) (parts: "string list")

definition Path :: "string \<Rightarrow> path" where
  "Path s = PosixPath (startswith s ''/'') (filter (\<lambda>seg. seg \<noteq> [] \<and> seg \<noteq> ''.'') (split CHR ''/'' s))"

text \<open>\<^verbatim>\<open>p / q\<close>: an absolute right operand replaces the left one.\<close>

definition joinpath :: "path \<Rightarrow> path \<Rightarrow> path" where
  "joinpath p q = (if is_absolute q then q else PosixPath (is_absolute p) (parts p @ parts q))"

definition parent :: "path \<Rightarrow> path" where
  "parent p = PosixPath (is_absolute p) (butlast (parts p))"

subsection \<open>The world outside the module\<close>

datatype os_error =
  FileExistsError | NotADirectoryError | PermissionError | FileNotFoundError | IsADirectoryError

text \<open>\<^verbatim>\<open>datetime.now()\<close>.\<close>

record datetime =
  year :: nat
  month :: nat
  day :: nat
  hour :: nat
  minute :: nat
  second :: nat
  microsecond :: nat

text \<open>
  A \<^verbatim>\<open>logging.LogRecord\<close>. \<open>levelname\<close> is a mutable attribute, and one record object
  is handed to every handler in turn. \<open>exc_text\<close> is the formatted traceback of a record
  made by \<^verbatim>\<open>logger.exception\<close>.
\<close>

record log_record =
  rec_name :: string
  levelno :: int
  levelname :: string
  message :: string
  asctime :: string
  funcName :: string
  lineno :: nat
  exc_text :: "string option"

text \<open>The two formatter objects that \<^verbatim>\<open>setup_logging\<close> builds.\<close>

datatype formatter = detailed_formatter | console_formatter

text \<open>
  A handler: where it writes (\<^verbatim>\<open>StreamHandler(sys.stdout)\<close>, or
  \<^verbatim>\<open>RotatingFileHandler(path, maxBytes, backupCount)\<close>), its level and its formatter.
\<close>

datatype sink = StreamHandler | RotatingFileHandler path nat nat

record handler =
  sink :: sink
  hlevel :: int
  hformatter :: formatter

record logger =
  name :: string
  level :: int
  handlers :: "handler list"

text \<open>
  \<open>fs_dirs\<close> are the directories that exist (the root and the current directory always
  do), \<open>fs_files\<close> the files with what has been written to them, one entry for each
  write; \<open>fs_denied p\<close> says that the operating system refuses to create or open \<open>p\<close>.
  \<open>module_file\<close> is \<^verbatim>\<open>Path(__file__)\<close>, taken as already resolved.
  \<open>loggerDict\<close> is the registry behind \<^verbatim>\<open>logging.getLogger\<close>.
\<close>

record world =
  environ :: "string \<rightharpoonup> string"
  platform :: string
  module_file :: path
  now :: datetime
  fs_dirs :: "path set"
  fs_files :: "path \<rightharpoonup> string list"
  fs_denied :: "path \<Rightarrow> bool"
  stdout :: "string list"
  loggerDict :: "string \<rightharpoonup> logger"

text \<open>\<^verbatim>\<open>os.environ.get(k)\<close> used as a condition: bound to a non-empty string.\<close>

definition env_truthy :: "world \<Rightarrow> string \<Rightarrow> bool" where
  "env_truthy w k = (case environ w k of None \<Rightarrow> False | Some v \<Rightarrow> v \<noteq> [])"

definition is_dir :: "world \<Rightarrow> path \<Rightarrow> bool" where
  "is_dir w p = (parts p = [] \<or> p \<in> fs_dirs w)"

definition is_file :: "world \<Rightarrow> path \<Rightarrow> bool" where
  "is_file w p = (\<not> is_dir w p \<and> fs_files w p \<noteq> None)"

definition exists :: "world \<Rightarrow> path \<Rightarrow> bool" where
  "exists w p = (is_dir w p \<or> is_file w p)"

text \<open>
  \<^verbatim>\<open>p.mkdir(parents=True, exist_ok=True)\<close>, by recursion on the segments of \<open>p\<close> in
  reverse: an existing directory is left alone, an existing file raises, a missing
  parent is created first.
\<close>

fun mkdir_rev :: "bool \<Rightarrow> string list \<Rightarrow> world \<Rightarrow> (os_error + unit) \<times> world" where
  "mkdir_rev a [] w = (Inr (), w)"
| "mkdir_rev a (s # rest) w =
     (let p = PosixPath a (rev (s # rest)); up = PosixPath a (rev rest) in
      if is_dir w p then (Inr (), w)
      else if is_file w p then (Inl FileExistsError, w)
      else if is_file w up then (Inl NotADirectoryError, w)
      else (case mkdir_rev a rest w of
              (Inl e, w') \<Rightarrow> (Inl e, w')
            | (Inr u, w') \<Rightarrow>
                if fs_denied w' p then (Inl PermissionError, w')
                else (Inr (), w'\<lparr>fs_dirs := insert p (fs_dirs w')\<rparr>)))"

definition mkdir :: "path \<Rightarrow> world \<Rightarrow> (os_error + unit) \<times> world" where
  "mkdir p w = mkdir_rev (is_absolute p) (rev (parts p)) w"

text \<open>
  Opening a file for appending, as the constructor of \<^verbatim>\<open>RotatingFileHandler\<close> does
  (\<^verbatim>\<open>mode='a'\<close>, no delay): a missing file is created empty.
\<close>

definition open_append :: "path \<Rightarrow> world \<Rightarrow> (os_error + unit) \<times> world" where
  "open_append p w =
     (if is_dir w p then (Inl IsADirectoryError, w)
      else if is_file w (parent p) then (Inl NotADirectoryError, w)
      else if \<not> is_dir w (parent p) then (Inl FileNotFoundError, w)
      else if fs_denied w p then (Inl PermissionError, w)
      else (case fs_files w p of
              Some old \<Rightarrow> (Inr (), w)
            | None \<Rightarrow> (Inr (), w\<lparr>fs_files := (fs_files w)(p \<mapsto> [])\<rparr>)))"

subsection \<open>Formatting and delivering a record\<close>

definition ESC :: char where
  "ESC = CHR 0x1B"

definition COLORS :: "(string \<times> string) list" where
  "COLORS =
     [(''DEBUG'', ESC # ''[36m''),
      (''INFO'', ESC # ''[32m''),
      (''WARNING'', ESC # ''[33m''),
      (''ERROR'', ESC # ''[31m''),
      (''CRITICAL'', ESC # ''[35m''),
      (''RESET'', ESC # ''[0m'')]"

text \<open>\<^verbatim>\<open>logging.Formatter.format\<close> for a given rendering of the format string.\<close>

definition append_exc_text :: "string \<Rightarrow> log_record \<Rightarrow> string" where
  "append_exc_text s r =
     (case exc_text r of
        None \<Rightarrow> s
      | Some t \<Rightarrow> if t = [] then s
                  else (if s \<noteq> [] \<and> last s = CHR 0x0A then s else s @ [CHR 0x0A]) @ t)"

text \<open>
  \<^verbatim>\<open>'%(asctime)s [%(levelname)s] %(name)s.%(funcName)s:%(lineno)d - %(message)s'\<close>
\<close>

definition Formatter_format :: "log_record \<Rightarrow> string" where
  "Formatter_format r =
     append_exc_text
       (asctime r @ '' ['' @ levelname r @ ''] '' @ rec_name r @ ''.'' @ funcName r @ '':''
          @ str_nat (lineno r) @ '' - '' @ message r) r"

text \<open>
  \<^verbatim>\<open>ColoredFormatter.format\<close>, with the format
  \<^verbatim>\<open>'[%(levelname)s] %(name)s - %(message)s'\<close>. It assigns to \<^verbatim>\<open>record.levelname\<close>,
  so it returns the record too.
\<close>

definition ColoredFormatter_format :: "world \<Rightarrow> log_record \<Rightarrow> string \<times> log_record" where
  "ColoredFormatter_format w r =
     (let r' =
        (if platform w \<noteq> ''win32'' \<or> env_truthy w ''COLORTERM''
         then (case map_of COLORS (levelname r) of
                 Some colour \<Rightarrow> r\<lparr>levelname := colour @ levelname r @ the (map_of COLORS ''RESET'')\<rparr>
               | None \<Rightarrow> r)
         else r)
      in (append_exc_text (''['' @ levelname r' @ ''] '' @ rec_name r' @ '' - '' @ message r') r', r'))"

fun format :: "world \<Rightarrow> formatter \<Rightarrow> log_record \<Rightarrow> string \<times> log_record" where
  "format w detailed_formatter r = (Formatter_format r, r)"
| "format w console_formatter r = ColoredFormatter_format w r"

text \<open>
  The inner loop of \<^verbatim>\<open>Logger.callHandlers\<close> over a list of handlers: every handler whose
  level the record reaches formats the record and emits the text; the record object,
  with what a formatter did to it, goes on to the next handler. The result lists, in
  order, the handlers that emitted and what each wrote.
\<close>

fun handle_in_turn :: "world \<Rightarrow> handler list \<Rightarrow> log_record \<Rightarrow> (handler \<times> string) list" where
  "handle_in_turn w [] r = []"
| "handle_in_turn w (h # hs) r =
     (if hlevel h \<le> levelno r
      then (case format w (hformatter h) r of (s, r') \<Rightarrow> (h, s) # handle_in_turn w hs r')
      else handle_in_turn w hs r)"

text \<open>
  Files as a \<^verbatim>\<open>RotatingFileHandler\<close> sees them. Every entry of a file is one write and
  ends with a newline, so it counts its length and one. \<open>backup p i\<close> is the file name
  with \<^verbatim>\<open>.i\<close> appended.
\<close>

definition contents :: "world \<Rightarrow> path \<Rightarrow> string list" where
  "contents w p = (case fs_files w p of None \<Rightarrow> [] | Some old \<Rightarrow> old)"

definition file_size :: "world \<Rightarrow> path \<Rightarrow> nat" where
  "file_size w p = sum_list (map (\<lambda>entry. Suc (length entry)) (contents w p))"

definition backup :: "path \<Rightarrow> nat \<Rightarrow> path" where
  "backup p i =
     PosixPath (is_absolute p)
       (case rev (parts p) of
          [] \<Rightarrow> [''.'' @ str_nat i]
        | f # up \<Rightarrow> rev up @ [f @ ''.'' @ str_nat i])"

text \<open>
  \<^verbatim>\<open>shouldRollover\<close>: the file is not empty and the new entry would bring it to
  \<open>maxBytes\<close> or beyond (an empty file is never rolled over, as in CPython since 3.12).
\<close>

definition shouldRollover :: "world \<Rightarrow> path \<Rightarrow> nat \<Rightarrow> string \<Rightarrow> bool" where
  "shouldRollover w p maxBytes s =
     (0 < maxBytes \<and> 0 < file_size w p \<and> maxBytes \<le> file_size w p + Suc (length s))"

text \<open>
  \<^verbatim>\<open>doRollover\<close>: for \<open>i\<close> from \<open>backupCount - 1\<close> down to 1 an existing backup \<open>i\<close>
  replaces backup \<open>i + 1\<close>; backup 1 is removed and the file itself, if there is one,
  becomes backup 1; the file is opened again for appending.
\<close>

definition rename :: "path \<Rightarrow> path \<Rightarrow> world \<Rightarrow> world" where
  "rename src dst w =
     (case fs_files w src of
        None \<Rightarrow> w
      | Some c \<Rightarrow> w\<lparr>fs_files := (fs_files w)(dst \<mapsto> c, src := None)\<rparr>)"

fun shift_backups :: "nat \<Rightarrow> path \<Rightarrow> world \<Rightarrow> world" where
  "shift_backups 0 p w = w"
| "shift_backups (Suc i) p w =
     shift_backups i p (rename (backup p (Suc i)) (backup p (Suc (Suc i))) w)"

definition doRollover :: "path \<Rightarrow> nat \<Rightarrow> world \<Rightarrow> world" where
  "doRollover p backupCount w =
     (let w1 = (if 0 < backupCount
                then (let w0 = shift_backups (backupCount - 1) p w
                      in rename p (backup p 1)
                           (w0\<lparr>fs_files := (fs_files w0)(backup p 1 := None)\<rparr>))
                else w)
      in w1\<lparr>fs_files := (fs_files w1)(p \<mapsto> contents w1 p)\<rparr>)"

text \<open>
  \<^verbatim>\<open>emit\<close>: one write to standard output, or to the handler's file after rolling it
  over if need be. A write goes to the file at the handler's path. (In Python a
  handler writes to the stream it holds; that is the file at its path unless another
  handler on the same file has rolled it over in the meantime.)
\<close>

fun emit :: "world \<Rightarrow> handler \<times> string \<Rightarrow> world" where
  "emit w (h, s) =
     (case sink h of
        StreamHandler \<Rightarrow> w\<lparr>stdout := stdout w @ [s]\<rparr>
      | RotatingFileHandler p maxBytes backupCount \<Rightarrow>
          (let w1 = (if shouldRollover w p maxBytes s then doRollover p backupCount w else w)
           in w1\<lparr>fs_files := (fs_files w1)(p \<mapsto> contents w1 p @ [s])\<rparr>))"

text \<open>Where a logging call is made from, and when: what the record takes from its caller.\<close>

record call_site =
  cs_asctime :: string
  cs_funcName :: string
  cs_lineno :: nat

text \<open>
  A logger is registered under its name; the root logger under the empty name, and its
  records carry the name \<^verbatim>\<open>root\<close>.
\<close>

definition makeRecord ::
  "logger \<Rightarrow> severity \<Rightarrow> string \<Rightarrow> string option \<Rightarrow> call_site \<Rightarrow> log_record" where
  "makeRecord lg lvl msg exc cs =
     \<lparr>rec_name = (if name lg = [] then ''root'' else name lg), levelno = level_number lvl,
      levelname = getLevelName lvl, message = msg, asctime = cs_asctime cs,
      funcName = cs_funcName cs, lineno = cs_lineno cs, exc_text = exc\<rparr>"

text \<open>
  The hierarchy of loggers. The parent of a logger is the first registered logger among
  the prefixes of its name that end before a dot, as the manager of \<^verbatim>\<open>logging\<close> looks
  for it (\<^verbatim>\<open>i = name.rfind('.')\<close>, then \<^verbatim>\<open>name.rfind('.', 0, i - 1)\<close>, while \<open>i > 0\<close>),
  and the root logger if there is none. The root logger, unless it has been configured,
  has level WARNING and no handler.
\<close>

fun positions :: "char \<Rightarrow> nat \<Rightarrow> string \<Rightarrow> nat list" where
  "positions c i [] = []"
| "positions c i (x # xs) = (if x = c then [i] else []) @ positions c (Suc i) xs"

fun pick_dots :: "nat \<Rightarrow> nat list \<Rightarrow> nat list" where
  "pick_dots bound [] = []"
| "pick_dots bound (j # js) =
     (if j < bound then (if 0 < j then j # pick_dots (j - 1) js else [])
      else pick_dots bound js)"

definition candidates :: "string \<Rightarrow> string list" where
  "candidates n = map (\<lambda>i. take i n) (pick_dots (length n) (rev (positions CHR ''.'' 0 n)))"

fun find_registered :: "world \<Rightarrow> string list \<Rightarrow> (string \<times> logger) option" where
  "find_registered w [] = None"
| "find_registered w (c # cs) =
     (case loggerDict w c of Some lg \<Rightarrow> Some (c, lg) | None \<Rightarrow> find_registered w cs)"

definition root_logger :: "world \<Rightarrow> logger" where
  "root_logger w =
     (case loggerDict w [] of
        Some r \<Rightarrow> r
      | None \<Rightarrow> \<lparr>name = [], level = level_number WARNING, handlers = []\<rparr>)"

function ancestors :: "world \<Rightarrow> string \<Rightarrow> logger list" where
  "ancestors w n =
     (if n = [] then []
      else (case find_registered w (candidates n) of
              Some (c, lg) \<Rightarrow> lg # ancestors w c
            | None \<Rightarrow> [root_logger w]))"
  by pat_completeness auto
termination
proof (relation "measure (\<lambda>(w, n). length n)")
  show "wf (measure (\<lambda>(w, n). length n))" by simp
next
  fix w :: world and n :: string and x2 x y
  assume n: "n \<noteq> []" and f: "find_registered w (candidates n) = Some x2" and x: "(x, y) = x2"
  have reg: "find_registered w cs = Some (c, lg) \<Longrightarrow> c \<in> set cs" for cs c lg
    by (induction cs) (auto split: option.splits)
  have pos: "j \<in> set (positions c i xs) \<Longrightarrow> j < i + length xs" for j c i xs
    by (induction xs arbitrary: i) (fastforce split: if_splits)+
  have pick: "set (pick_dots b js) \<subseteq> set js" for b js
    by (induction js arbitrary: b) auto
  from f x have "x \<in> set (candidates n)" by (auto dest: reg)
  then obtain j where j: "j \<in> set (pick_dots (length n) (rev (positions CHR ''.'' 0 n)))"
    and xj: "x = take j n"
    by (auto simp: candidates_def)
  from j pick have "j \<in> set (positions CHR ''.'' 0 n)" by fastforce
  then have "j < length n" by (auto dest: pos)
  with xj show "((w, x), (w, n)) \<in> measure (\<lambda>(w, n). length n)" by simp
qed

text \<open>
  \<^verbatim>\<open>Logger.getEffectiveLevel\<close>: the first level that is set, from the logger upwards.
  \<^verbatim>\<open>Logger.isEnabledFor\<close> compares with it.
\<close>

definition getEffectiveLevel :: "world \<Rightarrow> logger \<Rightarrow> int" where
  "getEffectiveLevel w lg =
     (case filter (\<lambda>l. l \<noteq> 0) (map level (lg # ancestors w (name lg))) of
        [] \<Rightarrow> 0
      | l # ls \<Rightarrow> l)"

definition isEnabledFor :: "world \<Rightarrow> logger \<Rightarrow> severity \<Rightarrow> bool" where
  "isEnabledFor w lg lvl = (getEffectiveLevel w lg \<le> level_number lvl)"

text \<open>
  \<^verbatim>\<open>Logger.callHandlers\<close>: the handlers of the logger, then those of its parent, and so
  on up to the root (\<^verbatim>\<open>propagate\<close> is true of every logger; the module never clears
  it). The handlers of an ancestor are asked for their own level only, not for the
  level of the ancestor. (The handler of last resort, which writes to standard error
  when no handler was found, is left out: standard error is not part of the world.)
\<close>

definition callHandlers :: "world \<Rightarrow> logger \<Rightarrow> log_record \<Rightarrow> (handler \<times> string) list" where
  "callHandlers w lg r =
     handle_in_turn w (handlers lg @ concat (map handlers (ancestors w (name lg)))) r"

definition deliveries ::
  "world \<Rightarrow> logger \<Rightarrow> severity \<Rightarrow> string \<Rightarrow> string option \<Rightarrow> call_site \<Rightarrow> (handler \<times> string) list" where
  "deliveries w lg lvl msg exc cs =
     (if isEnabledFor w lg lvl then callHandlers w lg (makeRecord lg lvl msg exc cs) else [])"

text \<open>\<^verbatim>\<open>logger.log(level, msg)\<close> and \<^verbatim>\<open>logger.exception(msg)\<close>.\<close>

definition Logger_log :: "logger \<Rightarrow> severity \<Rightarrow> string \<Rightarrow> call_site \<Rightarrow> world \<Rightarrow> world" where
  "Logger_log lg lvl msg cs w = foldl emit w (deliveries w lg lvl msg None cs)"


subsection \<open>get\_log\_level\_from\_env\<close>

definition level_map :: "(string \<times> severity) list" where
  "level_map =
     [(''DEBUG'', DEBUG), (''INFO'', INFO), (''WARNING'', WARNING), (''ERROR'', ERROR),
      (''CRITICAL'', CRITICAL)]"

definition get_log_level_from_env :: "world \<Rightarrow> severity" where
  "get_log_level_from_env w =
     (let level_name = upper (case environ w ''LFN_LOG_LEVEL'' of None \<Rightarrow> [] | Some v \<Rightarrow> v)
      in case map_of level_map level_name of Some l \<Rightarrow> l | None \<Rightarrow> DEFAULT_LOG_LEVEL)"

subsection \<open>setup\_logging\<close>

text \<open>
  The argument \<^verbatim>\<open>log_to_file\<close>: \<^verbatim>\<open>None\<close>, a truth value, or a file name. As a condition
  (\<^verbatim>\<open>if log_to_file:\<close>) it holds for \<^verbatim>\<open>True\<close> and for a non-empty string.
\<close>

datatype file_opt = FNone | FBool bool | FName string

fun truthy :: "file_opt \<Rightarrow> bool" where
  "truthy FNone = False"
| "truthy (FBool b) = b"
| "truthy (FName s) = (s \<noteq> [])"

record setup_args =
  log_to_file :: file_opt
  log_to_console :: bool
  log_level :: "severity option"
  log_dir :: "string option"

text \<open>
  Logger objects are shared: an assignment to the object that \<^verbatim>\<open>getLogger(n)\<close> returned
  is seen by everyone who asks for \<open>n\<close>. \<open>store n lg\<close> writes the object's new state to the
  registry.
\<close>

definition store :: "string \<Rightarrow> logger \<Rightarrow> world \<Rightarrow> world" where
  "store n lg w = w\<lparr>loggerDict := (loggerDict w)(n \<mapsto> lg)\<rparr>"

text \<open>\<^verbatim>\<open>logging.getLogger(name)\<close>: the registered logger, or a new one, registered.\<close>

definition getLogger :: "string \<Rightarrow> world \<Rightarrow> logger \<times> world" where
  "getLogger n w =
     (case loggerDict w n of
        Some lg \<Rightarrow> (lg, w)
      | None \<Rightarrow> (let lg = \<lparr>name = n, level = 0, handlers = []\<rparr> in (lg, store n lg w)))"

text \<open>
  ``Determine log directory'': the argument, else \<^verbatim>\<open>LFN_LOG_DIR\<close>, else the first of
  the module's directory and its two ancestors that holds a project marker, else the
  parent of the module's directory; \<^verbatim>\<open>logs\<close> under the last three.
\<close>

definition has_marker :: "world \<Rightarrow> path \<Rightarrow> bool" where
  "has_marker w current =
     (exists w (joinpath current (Path ''preflight_check.py''))
      \<or> exists w (joinpath current (Path ''setup.py'')))"

fun find_marker :: "world \<Rightarrow> nat \<Rightarrow> path \<Rightarrow> path option" where
  "find_marker w 0 current = None"
| "find_marker w (Suc k) current =
     (if has_marker w current then Some (joinpath current (Path DEFAULT_LOG_DIR))
      else find_marker w k (parent current))"

definition determine_log_dir :: "string option \<Rightarrow> world \<Rightarrow> path" where
  "determine_log_dir dir_arg w =
     (case dir_arg of
        Some d \<Rightarrow> Path d
      | None \<Rightarrow>
          if env_truthy w ''LFN_LOG_DIR'' then Path (the (environ w ''LFN_LOG_DIR''))
          else (case find_marker w 3 (parent (module_file w)) of
                  Some d \<Rightarrow> d
                | None \<Rightarrow> joinpath (parent (parent (module_file w))) (Path DEFAULT_LOG_DIR)))"

text \<open>``Determine filename'' and the name of the error-only file.\<close>

definition determine_filename :: "string \<Rightarrow> file_opt \<Rightarrow> string" where
  "determine_filename module_name ltf =
     (case ltf of
        FName s \<Rightarrow> s
      | _ \<Rightarrow> ''lfn_'' @ replace module_name ''.'' ''_'' @ ''.log'')"

definition error_filename :: "string \<Rightarrow> string" where
  "error_filename log_filename = replace log_filename ''.log'' ''_error.log''"

text \<open>
  \<^verbatim>\<open>logger.addHandler(h)\<close> appends \<open>h\<close> unless that very object is attached already; the
  handlers added here are new objects.
\<close>

definition addHandler :: "handler \<Rightarrow> logger \<Rightarrow> logger" where
  "addHandler h lg = lg\<lparr>handlers := handlers lg @ [h]\<rparr>"

text \<open>
  ``Check for debug mode from environment'': with \<^verbatim>\<open>LFN_DEBUG\<close> equal to \<^verbatim>\<open>'1'\<close> the
  logger and every handler attached to it are set to DEBUG.
\<close>

definition debug_mode :: "logger \<Rightarrow> world \<Rightarrow> logger" where
  "debug_mode lg w =
     (if environ w ''LFN_DEBUG'' = Some ''1''
      then lg\<lparr>level := level_number DEBUG,
              handlers := map (\<lambda>h. h\<lparr>hlevel := level_number DEBUG\<rparr>) (handlers lg)\<rparr>
      else lg)"

text \<open>``Determine log level''\<close>

definition determine_log_level :: "severity option \<Rightarrow> world \<Rightarrow> severity" where
  "determine_log_level lvl_arg w =
     (case lvl_arg of None \<Rightarrow> get_log_level_from_env w | Some l \<Rightarrow> l)"

text \<open>The three handlers, as the function sets them up.\<close>

definition console_handler :: "severity \<Rightarrow> handler" where
  "console_handler lvl =
     \<lparr>sink = StreamHandler, hlevel = level_number lvl, hformatter = console_formatter\<rparr>"

definition file_handler :: "path \<Rightarrow> severity \<Rightarrow> handler" where
  "file_handler log_path lvl =
     \<lparr>sink = RotatingFileHandler log_path MAX_LOG_SIZE BACKUP_COUNT, hlevel = level_number lvl,
      hformatter = detailed_formatter\<rparr>"

definition error_handler :: "path \<Rightarrow> handler" where
  "error_handler error_log_path =
     \<lparr>sink = RotatingFileHandler error_log_path MAX_LOG_SIZE BACKUP_COUNT,
      hlevel = level_number ERROR, hformatter = detailed_formatter\<rparr>"

text \<open>
  The function itself. Every assignment to the logger object is written to the
  registry at once, so that where the function raises, the world returned with the
  error holds the logger as the function left it. Constructing a
  \<^verbatim>\<open>RotatingFileHandler\<close> opens its file.
\<close>

definition setup_logging ::
  "string \<Rightarrow> setup_args \<Rightarrow> world \<Rightarrow> (os_error + logger) \<times> world" where
  "setup_logging module_name args w =
     (let lvl = determine_log_level (log_level args) w;
          (lg0, w0) = getLogger module_name w;
          lg1 = lg0\<lparr>level := level_number lvl, handlers := []\<rparr>;
          w1 = store module_name lg1 w0;
          dir = determine_log_dir (log_dir args) w1
      in (case mkdir dir w1 of
           (Inl e, w2) \<Rightarrow> (Inl e, w2)
         | (Inr u, w2) \<Rightarrow>
            (let lg2 = (if log_to_console args then addHandler (console_handler lvl) lg1 else lg1);
                 w3 = store module_name lg2 w2
             in (if truthy (log_to_file args)
                 then
                  (let log_filename = determine_filename module_name (log_to_file args);
                       log_path = joinpath dir (Path log_filename)
                   in (case open_append log_path w3 of
                        (Inl e, w4) \<Rightarrow> (Inl e, w4)
                      | (Inr u, w4) \<Rightarrow>
                         (let lg3 = addHandler (file_handler log_path lvl) lg2;
                              w5 = store module_name lg3 w4;
                              error_log_path = joinpath dir (Path (error_filename log_filename))
                          in (case open_append error_log_path w5 of
                               (Inl e, w6) \<Rightarrow> (Inl e, w6)
                             | (Inr u, w6) \<Rightarrow>
                                (let lg4 = addHandler (error_handler error_log_path) lg3;
                                     lg5 = debug_mode lg4 w6
                                 in (Inr lg5, store module_name lg5 w6))))))
                 else
                  (let lg5 = debug_mode lg2 w3 in (Inr lg5, store module_name lg5 w3))))))"

subsection \<open>get\_logger\<close>

text \<open>
  The keyword arguments of \<^verbatim>\<open>get_logger\<close>: each may be absent (\<open>None\<close>). An absent
  \<^verbatim>\<open>log_to_file\<close> differs from one passed as \<^verbatim>\<open>None\<close>.
\<close>

record kwargs =
  kw_log_to_file :: "file_opt option"
  kw_log_to_console :: "bool option"
  kw_log_level :: "severity option"
  kw_log_dir :: "string option"

definition main_modules :: "string list" where
  "main_modules = [''batch'', ''realtime'', ''recorder'', ''health'']"

definition get_logger_args :: "string \<Rightarrow> kwargs \<Rightarrow> world \<Rightarrow> setup_args" where
  "get_logger_args module_name kw w =
     \<lparr>log_to_file =
        (case kw_log_to_file kw of
           Some f \<Rightarrow> f
         | None \<Rightarrow>
             if env_truthy w ''LFN_LOG_FILE'' then FName (the (environ w ''LFN_LOG_FILE''))
             else if list_ex (contains module_name) main_modules then FBool True
             else FNone),
      log_to_console = (case kw_log_to_console kw of None \<Rightarrow> True | Some b \<Rightarrow> b),
      log_level = kw_log_level kw,
      log_dir = kw_log_dir kw\<rparr>"

definition get_logger :: "string \<Rightarrow> kwargs \<Rightarrow> world \<Rightarrow> (os_error + logger) \<times> world" where
  "get_logger module_name kw w = setup_logging module_name (get_logger_args module_name kw w) w"

subsection \<open>log\_function\_call\<close>








subsection \<open>create\_session\_log\<close>

text \<open>\<^verbatim>\<open>strftime('%Y%m%d_%H%M%S')\<close>\<close>

definition strftime :: "datetime \<Rightarrow> string" where
  "strftime d =
     pad4 (year d) @ pad2 (month d) @ pad2 (day d) @ ''_'' @ pad2 (hour d) @ pad2 (minute d)
       @ pad2 (second d)"

definition create_session_log ::
  "string \<Rightarrow> string option \<Rightarrow> world \<Rightarrow> (os_error + path) \<times> world" where
  "create_session_log session_name dir_arg w =
     (let dir = (case dir_arg of
                   None \<Rightarrow> joinpath (parent (parent (module_file w))) (Path DEFAULT_LOG_DIR)
                 | Some d \<Rightarrow> Path d)
      in case mkdir dir w of
           (Inl e, w') \<Rightarrow> (Inl e, w')
         | (Inr u, w') \<Rightarrow>
             let timestamp = strftime (now w');
                 log_filename = session_name @ ''_'' @ timestamp @ ''.log''
             in (Inr (joinpath dir (Path log_filename)), w'))"

subsection \<open>The specification's vocabulary\<close>

text \<open>
  The specification orders the severities DEBUG < INFO < WARNING < ERROR < CRITICAL.
  \<open>sev_ge S T\<close> reads ``\<open>S\<close> is at least \<open>T\<close>'' in that order, by position in the list.
\<close>

definition severity_order :: "severity list" where
  "severity_order = [DEBUG, INFO, WARNING, ERROR, CRITICAL]"



text \<open>
  The specification's \<open>resolve_level(explicit, env_var, debug_override)\<close>: the debug
  override gives DEBUG; else the explicit level; else the severity that the environment
  value names, case ignored; else, and for a value that names none, INFO.
\<close>

definition severity_named :: "string \<Rightarrow> severity option" where
  "severity_named v = find (\<lambda>S. upper v = getLevelName S) severity_order"

definition resolve_level :: "bool \<Rightarrow> severity option \<Rightarrow> string option \<Rightarrow> severity" where
  "resolve_level debug_override explicit env_var =
     (if debug_override then DEBUG
      else (case explicit of
              Some l \<Rightarrow> l
            | None \<Rightarrow>
                (case env_var of
                   None \<Rightarrow> INFO
                 | Some v \<Rightarrow> (case severity_named v of Some l \<Rightarrow> l | None \<Rightarrow> INFO))))"


text \<open>
  The sinks that the options of one call ask for: a console sink if \<^verbatim>\<open>log_to_console\<close>,
  the general and the errors-only file sink if \<^verbatim>\<open>log_to_file\<close>, in the order of
  attachment.
\<close>

definition attached_handlers :: "string \<Rightarrow> setup_args \<Rightarrow> world \<Rightarrow> handler list" where
  "attached_handlers module_name args w =
     (let lvl = determine_log_level (log_level args) w;
          dir = determine_log_dir (log_dir args) w;
          log_filename = determine_filename module_name (log_to_file args)
      in (if log_to_console args then [console_handler lvl] else [])
         @ (if truthy (log_to_file args)
            then [file_handler (joinpath dir (Path log_filename)) lvl,
                  error_handler (joinpath dir (Path (error_filename log_filename)))]
            else []))"

fun is_console :: "handler \<Rightarrow> bool" where
  "is_console h = (case sink h of StreamHandler \<Rightarrow> True | RotatingFileHandler p m b \<Rightarrow> False)"

definition console_sinks :: "logger \<Rightarrow> nat" where
  "console_sinks lg = length (filter is_console (handlers lg))"

definition file_sinks :: "logger \<Rightarrow> nat" where
  "file_sinks lg = length (filter (\<lambda>h. \<not> is_console h) (handlers lg))"





text \<open>An ANSI colour sequence starts with the escape character and a bracket.\<close>

definition has_ansi :: "string \<Rightarrow> bool" where
  "has_ansi s = contains s [ESC, CHR ''['']"

text \<open>The paths of the general and of the error-only log file of a call.\<close>

definition general_log_path :: "string \<Rightarrow> setup_args \<Rightarrow> world \<Rightarrow> path" where
  "general_log_path module_name args w =
     joinpath (determine_log_dir (log_dir args) w)
       (Path (determine_filename module_name (log_to_file args)))"

definition error_log_path :: "string \<Rightarrow> setup_args \<Rightarrow> world \<Rightarrow> path" where
  "error_log_path module_name args w =
     joinpath (determine_log_dir (log_dir args) w)
       (Path (error_filename (determine_filename module_name (log_to_file args))))"

text \<open>
  Two readings of the clock in the same second, and the directory that
  \<^verbatim>\<open>create_session_log\<close> uses (the argument, else \<^verbatim>\<open>logs\<close> beside the module's
  directory).
\<close>

definition same_second :: "datetime \<Rightarrow> datetime \<Rightarrow> bool" where
  "same_second a b =
     (year a = year b \<and> month a = month b \<and> day a = day b \<and> hour a = hour b
      \<and> minute a = minute b \<and> second a = second b)"

definition session_dir :: "string option \<Rightarrow> path \<Rightarrow> path" where
  "session_dir d mf =
     (case d of None \<Rightarrow> joinpath (parent (parent mf)) (Path DEFAULT_LOG_DIR) | Some x \<Rightarrow> Path x)"


subsection \<open>Example inputs\<close>

text \<open>
  A Linux host with the module at \<^verbatim>\<open>/app/src/lfn_logging.py\<close>, an empty environment, no
  project marker, an empty registry, and nothing refused by the operating system.
\<close>

definition linux_host :: world where
  "linux_host =
     \<lparr>environ = Map.empty, platform = ''linux'',
      module_file = PosixPath True [''app'', ''src'', ''lfn_logging.py''],
      now = \<lparr>year = 2024, month = 1, day = 2, hour = 3, minute = 4, second = 5,
             microsecond = 678\<rparr>,
      fs_dirs = {PosixPath True [''app''], PosixPath True [''app'', ''src'']},
      fs_files = Map.empty, fs_denied = (\<lambda>p. False), stdout = [],
      loggerDict = Map.empty\<rparr>"

definition console_only :: setup_args where
  "console_only = \<lparr>log_to_file = FNone, log_to_console = True, log_level = None, log_dir = None\<rparr>"

definition console_and_files :: setup_args where
  "console_and_files =
     \<lparr>log_to_file = FBool True, log_to_console = True, log_level = None, log_dir = None\<rparr>"

definition here :: call_site where
  "here = \<lparr>cs_asctime = ''2024-01-02 03:04:05'', cs_funcName = ''main'', cs_lineno = 12\<rparr>"

text \<open>The same host with \<^verbatim>\<open>LFN_LOG_LEVEL=Warning\<close> in the environment.\<close>

definition warning_host :: world where
  "warning_host = linux_host\<lparr>environ := [''LFN_LOG_LEVEL'' \<mapsto> ''Warning'']\<rparr>"

text \<open>The same host with \<^verbatim>\<open>LFN_DEBUG=1\<close>, and with \<^verbatim>\<open>LFN_DEBUG=true\<close>.\<close>

definition debug_host :: world where
  "debug_host = linux_host\<lparr>environ := [''LFN_DEBUG'' \<mapsto> ''1'']\<rparr>"

definition true_host :: world where
  "true_host = linux_host\<lparr>environ := [''LFN_DEBUG'' \<mapsto> ''true'']\<rparr>"

text \<open>Two sets of options for \<^verbatim>\<open>get_logger\<close>.\<close>

definition defaults :: kwargs where
  "defaults =
     \<lparr>kw_log_to_file = None, kw_log_to_console = None, kw_log_level = None, kw_log_dir = None\<rparr>"

definition no_files :: kwargs where
  "no_files =
     \<lparr>kw_log_to_file = Some (FBool False), kw_log_to_console = None, kw_log_level = Some ERROR,
      kw_log_dir = None\<rparr>"

text \<open>File logging without a console, under a generated name and under \<^verbatim>\<open>app.txt\<close>.\<close>

definition files_only :: setup_args where
  "files_only =
     \<lparr>log_to_file = FBool True, log_to_console = False, log_level = None, log_dir = None\<rparr>"

definition named_txt :: setup_args where
  "named_txt =
     \<lparr>log_to_file = FName ''app.txt'', log_to_console = False, log_level = None,
      log_dir = None\<rparr>"

text \<open>Setting a logger up and logging one message through it.\<close>

definition log_after_setup ::
  "string \<Rightarrow> setup_args \<Rightarrow> world \<Rightarrow> severity \<Rightarrow> string \<Rightarrow> world" where
  "log_after_setup module_name args w lvl msg =
     (case setup_logging module_name args w of
        (Inr lg, w') \<Rightarrow> Logger_log lg lvl msg here w'
      | (Inl e, w') \<Rightarrow> w')"





text \<open>
  The world after \<^verbatim>\<open>setup_logging('tool.x', log_to_file=True, log_to_console=False)\<close> on
  \<open>true_host\<close>, and the logger that the call returns.
\<close>

definition true_host_ready :: world where
  "true_host_ready = snd (setup_logging ''tool.x'' files_only true_host)"

definition true_host_logger :: logger where
  "true_host_logger =
     \<lparr>name = ''tool.x'', level = 20,
      handlers =
        [file_handler (PosixPath True [''app'', ''logs'', ''lfn_tool_x.log'']) INFO,
         error_handler (PosixPath True [''app'', ''logs'', ''lfn_tool_x_error.log''])]\<rparr>"



text \<open>The Linux host a little later in the same second.\<close>

definition later_host :: world where
  "later_host = linux_host\<lparr>now := (now linux_host)\<lparr>microsecond := 999999\<rparr>\<rparr>"

text \<open>
  A host where the operating system refuses to create or open anything, one where the
  log directory exists already but nothing can be created in it, and one where only the
  errors-only file of the module \<^verbatim>\<open>batch\<close> is refused.
\<close>

definition denied_host :: world where
  "denied_host = linux_host\<lparr>fs_denied := (\<lambda>p. True)\<rparr>"

definition readonly_host :: world where
  "readonly_host =
     linux_host\<lparr>fs_dirs := insert (PosixPath True [''app'', ''logs'']) (fs_dirs linux_host),
                fs_denied := (\<lambda>p. True)\<rparr>"

definition error_file_denied_host :: world where
  "error_file_denied_host =
     linux_host\<lparr>fs_denied := (\<lambda>p. p = PosixPath True [''app'', ''logs'', ''lfn_batch_error.log''])\<rparr>"















section \<open>Properties\<close>

subsection \<open>What the file system operations leave alone\<close>

lemma mkdir_rev_frame: "mkdir_rev a rp w = (r, w') \<Longrightarrow> \<exists>D. w' = w\<lparr>fs_dirs := D\<rparr>"
proof (induction rp arbitrary: r w')
  case Nil
  then have "w' = w\<lparr>fs_dirs := fs_dirs w\<rparr>" by simp
  then show ?case by blast
next
  case (Cons s rest)
  obtain r0 w0 where rec: "mkdir_rev a rest w = (r0, w0)" by (cases "mkdir_rev a rest w")
  from Cons.IH [OF rec] obtain D where D: "w0 = w\<lparr>fs_dirs := D\<rparr>" by blast
  from Cons.prems rec D show ?case
    by (auto simp: Let_def split: if_splits sum.splits intro: exI [of _ "fs_dirs w"])
qed

lemma mkdir_frame: "mkdir p w = (r, w') \<Longrightarrow> \<exists>D. w' = w\<lparr>fs_dirs := D\<rparr>"
  unfolding mkdir_def by (rule mkdir_rev_frame)

lemma open_append_frame: "open_append p w = (r, w') \<Longrightarrow> \<exists>F. w' = w\<lparr>fs_files := F\<rparr>"
  by (auto simp: open_append_def split: if_splits option.splits intro: exI [of _ "fs_files w"])

lemma getLogger_frame: "getLogger n w = (lg, w') \<Longrightarrow> \<exists>L. w' = w\<lparr>loggerDict := L\<rparr>"
  by (auto simp: getLogger_def store_def Let_def split: option.splits
      intro: exI [of _ "loggerDict w"])

lemma has_marker_loggerDict [simp]: "has_marker (w\<lparr>loggerDict := L\<rparr>) p = has_marker w p"
  by (simp add: has_marker_def exists_def is_dir_def is_file_def)

lemma find_marker_loggerDict [simp]:
  "find_marker (w\<lparr>loggerDict := L\<rparr>) k p = find_marker w k p"
  by (induction k arbitrary: p) simp_all

lemma determine_log_dir_loggerDict [simp]:
  "determine_log_dir d (w\<lparr>loggerDict := L\<rparr>) = determine_log_dir d w"
  by (simp add: determine_log_dir_def env_truthy_def split: option.splits)

subsection \<open>The logger that setup\_logging returns\<close>

lemma setup_logging_returns:
  assumes "setup_logging n args w = (Inr lg, w')"
  shows "level lg = level_number (if environ w ''LFN_DEBUG'' = Some ''1'' then DEBUG
                                  else determine_log_level (log_level args) w)"
    and "handlers lg =
           (if environ w ''LFN_DEBUG'' = Some ''1''
            then map (\<lambda>h. h\<lparr>hlevel := level_number DEBUG\<rparr>) (attached_handlers n args w)
            else attached_handlers n args w)"
    and "loggerDict w' n = Some lg"
    and "environ w' = environ w"
proof -
  obtain lg0 w0 where g: "getLogger n w = (lg0, w0)" by (cases "getLogger n w")
  then obtain L where w0: "w0 = w\<lparr>loggerDict := L\<rparr>" by (blast dest: getLogger_frame)
  show "level lg = level_number (if environ w ''LFN_DEBUG'' = Some ''1'' then DEBUG
                                  else determine_log_level (log_level args) w)"
    using assms g w0
    by (auto simp: setup_logging_def Let_def store_def addHandler_def debug_mode_def
        split: prod.splits sum.splits if_splits dest!: mkdir_frame open_append_frame)
  show "handlers lg =
           (if environ w ''LFN_DEBUG'' = Some ''1''
            then map (\<lambda>h. h\<lparr>hlevel := level_number DEBUG\<rparr>) (attached_handlers n args w)
            else attached_handlers n args w)"
    using assms g w0
    by (auto simp: setup_logging_def Let_def store_def addHandler_def debug_mode_def
        attached_handlers_def
        split: prod.splits sum.splits if_splits dest!: mkdir_frame open_append_frame)
  show "loggerDict w' n = Some lg"
    using assms g w0
    by (auto simp: setup_logging_def Let_def store_def
        split: prod.splits sum.splits if_splits dest!: mkdir_frame open_append_frame)
  show "environ w' = environ w"
    using assms g w0
    by (auto simp: setup_logging_def Let_def store_def
        split: prod.splits sum.splits if_splits dest!: mkdir_frame open_append_frame)
qed

text \<open>Unfolding the model on a concrete input.\<close>

lemmas model_defs =
  setup_logging_def getLogger_def store_def Let_def determine_log_level_def
  get_log_level_from_env_def upper_def upper_char_def level_map_def determine_log_dir_def
  env_truthy_def has_marker_def exists_def is_dir_def is_file_def joinpath_def Path_def
  parent_def DEFAULT_LOG_DIR_def mkdir_def addHandler_def debug_mode_def console_handler_def
  open_append_def determine_filename_def error_filename_def replace_def file_handler_def
  error_handler_def numeral_3_eq_3

subsection \<open>The level of the logger\<close>

lemma get_log_level_from_env_resolve:
  "get_log_level_from_env w = resolve_level False None (environ w ''LFN_LOG_LEVEL'')"
  by (simp add: get_log_level_from_env_def resolve_level_def severity_named_def level_map_def
      severity_order_def DEFAULT_LOG_LEVEL_def upper_def split: option.splits)

lemma determine_log_level_resolve:
  "determine_log_level explicit w = resolve_level False explicit (environ w ''LFN_LOG_LEVEL'')"
  by (cases explicit)
     (simp_all add: determine_log_level_def get_log_level_from_env_resolve resolve_level_def)

text \<open>
  Claim C3. The level of the logger that \<^verbatim>\<open>setup_logging\<close> returns is the
  specification's \<open>resolve_level\<close>: DEBUG when \<^verbatim>\<open>LFN_DEBUG\<close> is \<^verbatim>\<open>'1'\<close>, whatever else is
  given; else the \<^verbatim>\<open>log_level\<close> argument; else the severity that \<^verbatim>\<open>LFN_LOG_LEVEL\<close>
  names, case ignored; else INFO, also for a value that names no severity. Reading the
  environment is a total function: it has a value for every environment and raises
  nothing.
\<close>

theorem level_precedence:
  "get_log_level_from_env w = resolve_level False None (environ w ''LFN_LOG_LEVEL'') \<and>
   (\<forall>lg w'. setup_logging n args w = (Inr lg, w') \<longrightarrow>
      level lg = level_number (resolve_level (environ w ''LFN_DEBUG'' = Some ''1'')
                                 (log_level args) (environ w ''LFN_LOG_LEVEL'')))"
proof (intro conjI allI impI)
  show "get_log_level_from_env w = resolve_level False None (environ w ''LFN_LOG_LEVEL'')"
    by (rule get_log_level_from_env_resolve)
next
  fix lg w'
  assume run: "setup_logging n args w = (Inr lg, w')"
  from setup_logging_returns(1) [OF run]
  show "level lg = level_number (resolve_level (environ w ''LFN_DEBUG'' = Some ''1'')
                                  (log_level args) (environ w ''LFN_LOG_LEVEL''))"
    by (simp add: determine_log_level_resolve resolve_level_def)
qed

theorem level_precedence_witness:
  "fst (setup_logging ''tool'' console_only warning_host)
     = Inr \<lparr>name = ''tool'', level = 30, handlers = [console_handler WARNING]\<rparr>
   \<and> resolve_level (environ warning_host ''LFN_DEBUG'' = Some ''1'') (log_level console_only)
        (environ warning_host ''LFN_LOG_LEVEL'') = WARNING"
proof -
  let ?lg = "\<lparr>name = ''tool'', level = 30, handlers = [console_handler WARNING]\<rparr>"
  have run: "fst (setup_logging ''tool'' console_only warning_host) = Inr ?lg"
    by (simp add: warning_host_def linux_host_def console_only_def model_defs)
  then have "setup_logging ''tool'' console_only warning_host
               = (Inr ?lg, snd (setup_logging ''tool'' console_only warning_host))"
    by (metis prod.collapse)
  with level_precedence [of warning_host "''tool''" console_only]
  have "level ?lg = level_number (resolve_level (environ warning_host ''LFN_DEBUG'' = Some ''1'')
                                    (log_level console_only) (environ warning_host ''LFN_LOG_LEVEL''))"
    by blast
  then have "resolve_level (environ warning_host ''LFN_DEBUG'' = Some ''1'')
               (log_level console_only) (environ warning_host ''LFN_LOG_LEVEL'') = WARNING"
    by (cases "resolve_level (environ warning_host ''LFN_DEBUG'' = Some ''1'')
                 (log_level console_only) (environ warning_host ''LFN_LOG_LEVEL'')") simp_all
  with run show ?thesis by simp
qed

subsection \<open>Runs on the example hosts\<close>


lemma debug_host_run:
  "fst (setup_logging ''tool.x'' console_and_files debug_host)
     = Inr \<lparr>name = ''tool.x'', level = 10,
            handlers =
              [console_handler DEBUG,
               file_handler (PosixPath True [''app'', ''logs'', ''lfn_tool_x.log'']) DEBUG,
               (error_handler (PosixPath True [''app'', ''logs'', ''lfn_tool_x_error.log'']))
                 \<lparr>hlevel := 10\<rparr>]\<rparr>"
  by (simp add: debug_host_def linux_host_def console_and_files_def model_defs)

lemma true_host_run:
  "fst (setup_logging ''tool.x'' console_and_files true_host)
     = Inr \<lparr>name = ''tool.x'', level = 20,
            handlers =
              [console_handler INFO,
               file_handler (PosixPath True [''app'', ''logs'', ''lfn_tool_x.log'']) INFO,
               error_handler (PosixPath True [''app'', ''logs'', ''lfn_tool_x_error.log''])]\<rparr>"
  by (simp add: true_host_def linux_host_def console_and_files_def model_defs
      DEFAULT_LOG_LEVEL_def)

lemma fst_run: "fst p = Inr lg \<Longrightarrow> p = (Inr lg, snd p)"
  by (metis prod.collapse)

subsection \<open>The debug override\<close>

text \<open>
  Claim C10. Let \<^verbatim>\<open>setup_logging\<close> return a logger. If \<^verbatim>\<open>LFN_DEBUG\<close> is bound to the
  string \<^verbatim>\<open>'1'\<close>, the logger and every handler have level DEBUG. For every other value,
  and when the variable is unbound, the logger keeps the level determined from the
  argument and \<^verbatim>\<open>LFN_LOG_LEVEL\<close>, and the handlers are the attached ones with their
  levels as set at attachment.
\<close>

theorem debug_override_exactly_1:
  assumes "setup_logging n args w = (Inr lg, w')"
  shows "(environ w ''LFN_DEBUG'' = Some ''1'' \<longrightarrow>
            level lg = level_number DEBUG
            \<and> (\<forall>h \<in> set (handlers lg). hlevel h = level_number DEBUG))
       \<and> (environ w ''LFN_DEBUG'' \<noteq> Some ''1'' \<longrightarrow>
            level lg = level_number (determine_log_level (log_level args) w)
            \<and> handlers lg = attached_handlers n args w)"
  using setup_logging_returns(1,2) [OF assms] by auto

theorem debug_override_exactly_1_witness:
  "(\<exists>lg. fst (setup_logging ''tool.x'' console_and_files debug_host) = Inr lg
        \<and> environ debug_host ''LFN_DEBUG'' = Some ''1''
        \<and> level lg = level_number DEBUG \<and> map hlevel (handlers lg) = [10, 10, 10])
   \<and> (\<exists>lg. fst (setup_logging ''tool.x'' console_and_files true_host) = Inr lg
        \<and> environ true_host ''LFN_DEBUG'' = Some ''true''
        \<and> level lg = level_number (determine_log_level (log_level console_and_files) true_host)
        \<and> handlers lg = attached_handlers ''tool.x'' console_and_files true_host
        \<and> map hlevel (handlers lg) = [20, 20, 40])"
proof -
  let ?d = "\<lparr>name = ''tool.x'', level = 10,
             handlers =
               [console_handler DEBUG,
                file_handler (PosixPath True [''app'', ''logs'', ''lfn_tool_x.log'']) DEBUG,
                (error_handler (PosixPath True [''app'', ''logs'', ''lfn_tool_x_error.log'']))
                  \<lparr>hlevel := 10\<rparr>]\<rparr>"
  let ?t = "\<lparr>name = ''tool.x'', level = 20,
             handlers =
               [console_handler INFO,
                file_handler (PosixPath True [''app'', ''logs'', ''lfn_tool_x.log'']) INFO,
                error_handler (PosixPath True [''app'', ''logs'', ''lfn_tool_x_error.log''])]\<rparr>"
  have d: "environ debug_host ''LFN_DEBUG'' = Some ''1''"
    by (simp add: debug_host_def)
  have t: "environ true_host ''LFN_DEBUG'' = Some ''true''"
    by (simp add: true_host_def)
  then have t': "environ true_host ''LFN_DEBUG'' \<noteq> Some ''1''" by simp
  from debug_override_exactly_1 [OF fst_run [OF debug_host_run]] d
  have d1: "level ?d = level_number DEBUG" by blast
  have d2: "map hlevel (handlers ?d) = [10, 10, 10]"
    by (simp add: console_handler_def file_handler_def error_handler_def)
  from debug_override_exactly_1 [OF fst_run [OF true_host_run]] t'
  have t1: "level ?t = level_number (determine_log_level (log_level console_and_files) true_host)
            \<and> handlers ?t = attached_handlers ''tool.x'' console_and_files true_host"
    by blast
  have t2: "map hlevel (handlers ?t) = [20, 20, 40]"
    by (simp add: console_handler_def file_handler_def error_handler_def)
  have A: "\<exists>lg. fst (setup_logging ''tool.x'' console_and_files debug_host) = Inr lg
        \<and> environ debug_host ''LFN_DEBUG'' = Some ''1''
        \<and> level lg = level_number DEBUG \<and> map hlevel (handlers lg) = [10, 10, 10]"
    using debug_host_run d d1 d2 by (intro exI [of _ ?d] conjI)
  have B: "\<exists>lg. fst (setup_logging ''tool.x'' console_and_files true_host) = Inr lg
        \<and> environ true_host ''LFN_DEBUG'' = Some ''true''
        \<and> level lg = level_number (determine_log_level (log_level console_and_files) true_host)
        \<and> handlers lg = attached_handlers ''tool.x'' console_and_files true_host
        \<and> map hlevel (handlers lg) = [20, 20, 40]"
    using true_host_run t t1 t2 by (intro exI [of _ ?t] conjI) (erule conjunct1 conjunct2 | assumption)+
  from A B show ?thesis by (rule conjI)
qed

subsection \<open>Configuring a logger again\<close>

lemma setup_logging_registry:
  assumes "setup_logging n args w = (r, w')"
  shows "\<exists>h. loggerDict w' n = Some h \<and> console_sinks h \<le> 1 \<and> file_sinks h \<le> 2"
    and "environ w' = environ w"
proof -
  obtain lg0 w0 where g: "getLogger n w = (lg0, w0)" by (cases "getLogger n w")
  then obtain L where w0: "w0 = w\<lparr>loggerDict := L\<rparr>" by (blast dest: getLogger_frame)
  show "\<exists>h. loggerDict w' n = Some h \<and> console_sinks h \<le> 1 \<and> file_sinks h \<le> 2"
    using assms g w0
    by (auto simp: setup_logging_def Let_def store_def addHandler_def debug_mode_def
        console_sinks_def file_sinks_def console_handler_def file_handler_def error_handler_def
        split: prod.splits sum.splits if_splits dest!: mkdir_frame open_append_frame)
  show "environ w' = environ w"
    using assms g w0
    by (auto simp: setup_logging_def Let_def store_def
        split: prod.splits sum.splits if_splits dest!: mkdir_frame open_append_frame)
qed

lemma attached_handlers_loggerDict:
  "attached_handlers n args (w\<lparr>loggerDict := L\<rparr>) = attached_handlers n args w"
  by (simp add: attached_handlers_def determine_log_level_def get_log_level_from_env_def
      split: option.splits)

lemma attached_handlers_counts:
  "length (filter is_console (attached_handlers n args w)) = (if log_to_console args then 1 else 0)"
  "length (filter (\<lambda>h. \<not> is_console h) (attached_handlers n args w))
     = (if truthy (log_to_file args) then 2 else 0)"
  by (simp_all add: attached_handlers_def Let_def console_handler_def file_handler_def
      error_handler_def)

lemma is_console_hlevel: "is_console (if c then h\<lparr>hlevel := l\<rparr> else h) = is_console h"
  by simp

lemma get_logger_args_environ:
  "environ v = environ w \<Longrightarrow> get_logger_args n kw v = get_logger_args n kw w"
  by (simp add: get_logger_args_def env_truthy_def split: option.splits)

text \<open>
  Claim C2. After two calls of \<^verbatim>\<open>get_logger\<close> for one module name, with any options,
  the logger registered under the name holds at most one console sink and at most two
  file sinks, whether the second call returned or raised. The first call leaves the
  environment alone, so the second call's options are read as in the first world. If the
  second call returns, it returns the registered logger, and the handlers of that
  logger are exactly the ones that the second call's options ask for, computed in a
  world with an empty registry: nothing of the first call is left, the console sink is
  there once or not at all, the file sinks are two or none.
\<close>

theorem get_logger_twice:
  assumes "get_logger n kw1 w = (r1, w1)" and "get_logger n kw2 w1 = (r2, w2)"
  shows "(\<exists>h. loggerDict w2 n = Some h \<and> console_sinks h \<le> 1 \<and> file_sinks h \<le> 2) \<and>
         get_logger_args n kw2 w1 = get_logger_args n kw2 w \<and>
         (\<forall>lg. r2 = Inr lg \<longrightarrow>
            loggerDict w2 n = Some lg \<and>
            handlers lg =
              map (\<lambda>h. if environ w ''LFN_DEBUG'' = Some ''1'' then h\<lparr>hlevel := level_number DEBUG\<rparr>
                        else h)
                (attached_handlers n (get_logger_args n kw2 w) (w1\<lparr>loggerDict := Map.empty\<rparr>)) \<and>
            console_sinks lg = (if log_to_console (get_logger_args n kw2 w) then 1 else 0) \<and>
            file_sinks lg = (if truthy (log_to_file (get_logger_args n kw2 w)) then 2 else 0))"
proof (intro conjI allI impI)
  from assms(2) show "\<exists>h. loggerDict w2 n = Some h \<and> console_sinks h \<le> 1 \<and> file_sinks h \<le> 2"
    unfolding get_logger_def by (rule setup_logging_registry(1))
  from assms(1) have env: "environ w1 = environ w"
    unfolding get_logger_def by (rule setup_logging_registry(2))
  then show args: "get_logger_args n kw2 w1 = get_logger_args n kw2 w"
    by (rule get_logger_args_environ)
  fix lg
  assume "r2 = Inr lg"
  with assms(2) args have run: "setup_logging n (get_logger_args n kw2 w) w1 = (Inr lg, w2)"
    by (simp add: get_logger_def)
  from setup_logging_returns(3) [OF run] show "loggerDict w2 n = Some lg" .
  from setup_logging_returns(2) [OF run] env
  show h: "handlers lg =
              map (\<lambda>h. if environ w ''LFN_DEBUG'' = Some ''1'' then h\<lparr>hlevel := level_number DEBUG\<rparr>
                        else h)
                (attached_handlers n (get_logger_args n kw2 w) (w1\<lparr>loggerDict := Map.empty\<rparr>))"
    by (simp add: attached_handlers_loggerDict)
  have c: "length (filter is_console (handlers lg))
             = length (filter is_console
                 (attached_handlers n (get_logger_args n kw2 w) (w1\<lparr>loggerDict := Map.empty\<rparr>)))"
    unfolding h by (simp only: filter_map o_def is_console_hlevel length_map)
  have f: "length (filter (\<lambda>h. \<not> is_console h) (handlers lg))
             = length (filter (\<lambda>h. \<not> is_console h)
                 (attached_handlers n (get_logger_args n kw2 w) (w1\<lparr>loggerDict := Map.empty\<rparr>)))"
    unfolding h by (simp only: filter_map o_def is_console_hlevel length_map)
  from c show "console_sinks lg = (if log_to_console (get_logger_args n kw2 w) then 1 else 0)"
    unfolding console_sinks_def by (simp only: attached_handlers_counts)
  from f show "file_sinks lg = (if truthy (log_to_file (get_logger_args n kw2 w)) then 2 else 0)"
    unfolding file_sinks_def by (simp only: attached_handlers_counts)
qed

lemma first_call:
  "fst (get_logger ''batch'' defaults linux_host)
     = Inr \<lparr>name = ''batch'', level = 20,
            handlers =
              [console_handler INFO,
               file_handler (PosixPath True [''app'', ''logs'', ''lfn_batch.log'']) INFO,
               error_handler (PosixPath True [''app'', ''logs'', ''lfn_batch_error.log''])]\<rparr>"
  by (simp add: get_logger_def get_logger_args_def defaults_def main_modules_def
      linux_host_def model_defs DEFAULT_LOG_LEVEL_def)

lemma second_call:
  "fst (get_logger ''batch'' no_files (snd (get_logger ''batch'' defaults linux_host)))
     = Inr \<lparr>name = ''batch'', level = 40, handlers = [console_handler ERROR]\<rparr>"
  by (simp add: get_logger_def get_logger_args_def defaults_def no_files_def main_modules_def
      linux_host_def model_defs DEFAULT_LOG_LEVEL_def)

theorem get_logger_twice_witness:
  "(\<exists>lg1. fst (get_logger ''batch'' defaults linux_host) = Inr lg1 \<and> length (handlers lg1) = 3)
   \<and> (\<exists>lg. fst (get_logger ''batch'' no_files (snd (get_logger ''batch'' defaults linux_host)))
              = Inr lg
            \<and> handlers lg = [console_handler ERROR]
            \<and> console_sinks lg = 1 \<and> file_sinks lg = 0
            \<and> loggerDict
                 (snd (get_logger ''batch'' no_files (snd (get_logger ''batch'' defaults linux_host))))
                 ''batch'' = Some lg)"
proof -
  let ?w1 = "snd (get_logger ''batch'' defaults linux_host)"
  let ?lg = "\<lparr>name = ''batch'', level = 40, handlers = [console_handler ERROR]\<rparr>"
  have a1: "get_logger ''batch'' defaults linux_host
              = (fst (get_logger ''batch'' defaults linux_host), ?w1)"
    by simp
  have a2: "get_logger ''batch'' no_files ?w1 = (Inr ?lg, snd (get_logger ''batch'' no_files ?w1))"
    by (rule fst_run [OF second_call])
  have o1: "log_to_console (get_logger_args ''batch'' no_files linux_host)"
    by (simp add: get_logger_args_def no_files_def)
  have o2: "\<not> truthy (log_to_file (get_logger_args ''batch'' no_files linux_host))"
    by (simp add: get_logger_args_def no_files_def)
  from get_logger_twice [OF a1 a2]
  have "loggerDict (snd (get_logger ''batch'' no_files ?w1)) ''batch'' = Some ?lg
        \<and> console_sinks ?lg = (if log_to_console (get_logger_args ''batch'' no_files linux_host)
                                then 1 else 0)
        \<and> file_sinks ?lg = (if truthy (log_to_file (get_logger_args ''batch'' no_files linux_host))
                             then 2 else 0)"
    by blast
  with o1 o2 have B: "loggerDict (snd (get_logger ''batch'' no_files ?w1)) ''batch'' = Some ?lg
        \<and> console_sinks ?lg = 1 \<and> file_sinks ?lg = 0"
    by simp
  have A: "\<exists>lg1. fst (get_logger ''batch'' defaults linux_host) = Inr lg1
                 \<and> length (handlers lg1) = 3"
    by (simp add: first_call)
  from second_call B
  have "\<exists>lg. fst (get_logger ''batch'' no_files ?w1) = Inr lg
            \<and> handlers lg = [console_handler ERROR]
            \<and> console_sinks lg = 1 \<and> file_sinks lg = 0
            \<and> loggerDict (snd (get_logger ''batch'' no_files ?w1)) ''batch'' = Some lg"
    by (intro exI [of _ ?lg]) simp
  with A show ?thesis by (rule conjI)
qed

subsection \<open>Which sinks emit a record\<close>

declare ancestors.simps [simp del]

lemmas log_defs =
  log_after_setup_def Logger_log_def deliveries_def isEnabledFor_def getEffectiveLevel_def
  callHandlers_def ancestors.simps candidates_def root_logger_def makeRecord_def here_def
  contents_def file_size_def shouldRollover_def Formatter_format_def
  ColoredFormatter_format_def append_exc_text_def COLORS_def digit_def MAX_LOG_SIZE_def
  BACKUP_COUNT_def





















subsection \<open>The errors-only sink\<close>

text \<open>
  Claim C4 at a failing input. With \<^verbatim>\<open>LFN_DEBUG=1\<close>,
  \<^verbatim>\<open>setup_logging('tool.x', log_to_file=True, log_to_console=False)\<close> returns a logger
  whose errors-only handler has level DEBUG, and \<^verbatim>\<open>logger.info('hello')\<close> writes the line
  to the errors-only file. With \<^verbatim>\<open>LFN_DEBUG=true\<close> the override is not taken, the
  threshold is INFO, and an INFO record followed by an ERROR record puts both lines in the
  general file and the ERROR line alone in the errors-only file.
\<close>

theorem errors_only_sink_under_debug:
  "environ debug_host ''LFN_DEBUG'' = Some ''1''
   \<and> fst (setup_logging ''tool.x'' files_only debug_host)
       = Inr \<lparr>name = ''tool.x'', level = 10,
              handlers =
                [file_handler (PosixPath True [''app'', ''logs'', ''lfn_tool_x.log'']) DEBUG,
                 (error_handler (PosixPath True [''app'', ''logs'', ''lfn_tool_x_error.log'']))
                   \<lparr>hlevel := level_number DEBUG\<rparr>]\<rparr>
   \<and> contents (log_after_setup ''tool.x'' files_only debug_host INFO ''hello'')
         (PosixPath True [''app'', ''logs'', ''lfn_tool_x_error.log''])
       = [''2024-01-02 03:04:05 [INFO] tool.x.main:12 - hello'']
   \<and> fst (setup_logging ''tool.x'' files_only true_host) = Inr true_host_logger
   \<and> contents
         (Logger_log true_host_logger ERROR ''failed'' here
            (Logger_log true_host_logger INFO ''started'' here true_host_ready))
         (PosixPath True [''app'', ''logs'', ''lfn_tool_x.log''])
       = [''2024-01-02 03:04:05 [INFO] tool.x.main:12 - started'',
          ''2024-01-02 03:04:05 [ERROR] tool.x.main:12 - failed'']
   \<and> contents
         (Logger_log true_host_logger ERROR ''failed'' here
            (Logger_log true_host_logger INFO ''started'' here true_host_ready))
         (PosixPath True [''app'', ''logs'', ''lfn_tool_x_error.log''])
       = [''2024-01-02 03:04:05 [ERROR] tool.x.main:12 - failed'']"
  by (simp add: log_defs files_only_def debug_host_def true_host_def true_host_ready_def
      true_host_logger_def linux_host_def model_defs DEFAULT_LOG_LEVEL_def)

subsection \<open>Colour codes in files\<close>

text \<open>
  Claim C5 at a failing input. On a Linux host,
  \<^verbatim>\<open>setup_logging('tool.x', log_to_file=True)\<close> and then \<^verbatim>\<open>logger.info('hello')\<close>: the
  console handler comes first; its formatter writes the coloured name into the record,
  and the general file gets the line with the colour codes. Without the console handler
  the line in the file is plain.
\<close>

theorem file_line_with_colour_codes:
  "stdout (log_after_setup ''tool.x'' console_and_files linux_host INFO ''hello'')
     = [''['' @ ESC # ''[32mINFO'' @ ESC # ''[0m] tool.x - hello'']
   \<and> contents (log_after_setup ''tool.x'' console_and_files linux_host INFO ''hello'')
         (PosixPath True [''app'', ''logs'', ''lfn_tool_x.log''])
       = [''2024-01-02 03:04:05 ['' @ ESC # ''[32mINFO'' @ ESC # ''[0m] tool.x.main:12 - hello'']
   \<and> has_ansi (''2024-01-02 03:04:05 ['' @ ESC # ''[32mINFO'' @ ESC # ''[0m] tool.x.main:12 - hello'')
   \<and> contents (log_after_setup ''tool.x'' files_only linux_host INFO ''hello'')
         (PosixPath True [''app'', ''logs'', ''lfn_tool_x.log''])
       = [''2024-01-02 03:04:05 [INFO] tool.x.main:12 - hello'']"
  by (simp add: log_defs console_and_files_def files_only_def linux_host_def model_defs
      DEFAULT_LOG_LEVEL_def has_ansi_def ESC_def)

subsection \<open>The name of the error-only file\<close>

text \<open>
  For a generated name the error-only file is named as intended: the module name has lost
  its dots, so \<^verbatim>\<open>.log\<close> occurs once, at the end.
\<close>

lemma replace_from_char_gone:
  "c \<notin> set new \<Longrightarrow> c \<notin> set (replace_from [c] new s)"
  by (induction s) auto

lemma replace_from_suffix:
  "CHR ''.'' \<notin> set s \<Longrightarrow>
     replace_from ''.log'' ''_error.log'' (s @ ''.log'') = s @ ''_error.log''"
  by (induction s) auto

lemma generated_error_filename:
  "error_filename (determine_filename n (FBool b))
     = ''lfn_'' @ replace n ''.'' ''_'' @ ''_error.log''"
proof -
  have "CHR ''.'' \<notin> set (replace n ''.'' ''_'')"
    by (simp add: replace_def replace_from_char_gone)
  then have "CHR ''.'' \<notin> set (''lfn_'' @ replace n ''.'' ''_'')" by simp
  from replace_from_suffix [OF this] show ?thesis
    by (simp add: error_filename_def determine_filename_def replace_def)
qed

text \<open>
  Claim C7 at a failing input. With \<^verbatim>\<open>log_to_file='app.txt'\<close> the name has no
  \<^verbatim>\<open>.log\<close> to replace: the error-only handler is given the path of the general file.
  An INFO record lands in the file that the error-only handler writes, and an ERROR
  record is written to it twice.
\<close>

theorem error_file_is_general_file:
  "error_filename ''app.txt'' = ''app.txt''
   \<and> error_filename ''my.logs.log'' = ''my_error.logs_error.log''
   \<and> fst (setup_logging ''tool'' named_txt linux_host)
       = Inr \<lparr>name = ''tool'', level = 20,
              handlers =
                [file_handler (PosixPath True [''app'', ''logs'', ''app.txt'']) INFO,
                 error_handler (PosixPath True [''app'', ''logs'', ''app.txt''])]\<rparr>
   \<and> contents (log_after_setup ''tool'' named_txt linux_host INFO ''hello'')
         (PosixPath True [''app'', ''logs'', ''app.txt''])
       = [''2024-01-02 03:04:05 [INFO] tool.main:12 - hello'']
   \<and> contents (log_after_setup ''tool'' named_txt linux_host ERROR ''failed'')
         (PosixPath True [''app'', ''logs'', ''app.txt''])
       = [''2024-01-02 03:04:05 [ERROR] tool.main:12 - failed'',
          ''2024-01-02 03:04:05 [ERROR] tool.main:12 - failed'']"
  by (simp add: log_defs named_txt_def linux_host_def model_defs DEFAULT_LOG_LEVEL_def)

subsection \<open>Session log paths\<close>

lemma split_no_sep: "d \<notin> set s \<Longrightarrow> split d s = [s]"
  by (induction s) auto

lemma digit_not_slash: "digit n \<noteq> CHR ''/''"
proof -
  have "digit n \<in> set ''0123456789''"
    unfolding digit_def by (rule nth_mem) simp
  then show ?thesis by auto
qed

lemma strftime_no_slash: "CHR ''/'' \<notin> set (strftime d)"
  by (simp add: strftime_def pad2_def pad4_def digit_not_slash digit_not_slash [symmetric])

lemma Path_filename:
  assumes "CHR ''/'' \<notin> set s"
  shows "Path (s @ ''_'' @ strftime d @ ''.log'') = PosixPath False [s @ ''_'' @ strftime d @ ''.log'']"
proof -
  let ?f = "s @ ''_'' @ strftime d @ ''.log''"
  from assms have ns: "CHR ''/'' \<notin> set ?f" by (simp add: strftime_no_slash)
  then have sp: "split CHR ''/'' ?f = [?f]" by (rule split_no_sep)
  have nd: "?f \<noteq> ''.''" by (cases s) (simp_all add: strftime_def pad4_def)
  have st: "\<not> startswith ?f ''/''" using assms by (cases s) auto
  from sp nd st show ?thesis unfolding Path_def by simp
qed

lemma strftime_same_second: "same_second a b \<Longrightarrow> strftime a = strftime b"
  by (simp add: same_second_def strftime_def)

lemma create_session_log_Inr:
  assumes "create_session_log s d w = (Inr p, w')"
  shows "p = joinpath (session_dir d (module_file w))
               (Path (s @ ''_'' @ strftime (now w) @ ''.log''))"
  using assms
  by (auto simp: create_session_log_def session_dir_def Let_def
      split: prod.splits sum.splits dest!: mkdir_frame)

lemma create_session_log_files: "fs_files (snd (create_session_log s d w)) = fs_files w"
  by (auto simp: create_session_log_def Let_def split: prod.splits sum.splits dest!: mkdir_frame)

lemma session_filename_inj:
  "s \<noteq> t \<Longrightarrow> s @ ''_'' @ ts @ ''.log'' \<noteq> t @ ''_'' @ ts @ ''.log''"
  by simp

text \<open>
  Claim C9, as amended. \<^verbatim>\<open>create_session_log\<close> leaves every file as it was, whether it
  returns or raises (it creates the directory only). On a host that is not Windows, two
  calls with the same label and directory that return, made in worlds whose clocks read
  the same second (and with the module at the same place), return the same path; and two
  calls that differ in the label only return different paths, provided that neither label
  contains the separator \<^verbatim>\<open>/\<close>. On Windows, where \<^verbatim>\<open>pathlib\<close> compares paths without
  regard to case and takes \<^verbatim>\<open>\\<close> for a separator too, nothing is stated about the paths.
\<close>

theorem session_log_paths:
  "fs_files (snd (create_session_log s d w)) = fs_files w
   \<and> (\<forall>v p q wp vq.
        platform w \<noteq> ''win32'' \<and> platform v \<noteq> ''win32''
        \<and> create_session_log s d w = (Inr p, wp) \<and> create_session_log s d v = (Inr q, vq)
        \<and> module_file v = module_file w \<and> same_second (now v) (now w) \<longrightarrow> p = q)
   \<and> (\<forall>t v p q wp vq.
        platform w \<noteq> ''win32'' \<and> platform v \<noteq> ''win32''
        \<and> create_session_log s d w = (Inr p, wp) \<and> create_session_log t d v = (Inr q, vq)
        \<and> module_file v = module_file w \<and> same_second (now v) (now w)
        \<and> s \<noteq> t \<and> CHR ''/'' \<notin> set s \<and> CHR ''/'' \<notin> set t \<longrightarrow> p \<noteq> q)"
proof (intro conjI allI impI)
  show "fs_files (snd (create_session_log s d w)) = fs_files w"
    by (rule create_session_log_files)
next
  fix v p q wp vq
  assume a: "platform w \<noteq> ''win32'' \<and> platform v \<noteq> ''win32''
        \<and> create_session_log s d w = (Inr p, wp) \<and> create_session_log s d v = (Inr q, vq)
        \<and> module_file v = module_file w \<and> same_second (now v) (now w)"
  then have rw: "create_session_log s d w = (Inr p, wp)"
    and rv: "create_session_log s d v = (Inr q, vq)"
    and mf: "module_file v = module_file w"
    and ss: "same_second (now v) (now w)"
    by blast+
  from ss have ts: "strftime (now v) = strftime (now w)" by (rule strftime_same_second)
  from create_session_log_Inr [OF rw] create_session_log_Inr [OF rv]
  show "p = q" by (simp only: mf ts)
next
  fix t v p q wp vq
  assume a: "platform w \<noteq> ''win32'' \<and> platform v \<noteq> ''win32''
        \<and> create_session_log s d w = (Inr p, wp) \<and> create_session_log t d v = (Inr q, vq)
        \<and> module_file v = module_file w \<and> same_second (now v) (now w)
        \<and> s \<noteq> t \<and> CHR ''/'' \<notin> set s \<and> CHR ''/'' \<notin> set t"
  then have rw: "create_session_log s d w = (Inr p, wp)"
    and rv: "create_session_log t d v = (Inr q, vq)"
    and mf: "module_file v = module_file w"
    and ss: "same_second (now v) (now w)"
    and ne: "s \<noteq> t" and ns: "CHR ''/'' \<notin> set s" and nt: "CHR ''/'' \<notin> set t"
    by blast+
  from ss have ts: "strftime (now v) = strftime (now w)" by (rule strftime_same_second)
  let ?dir = "session_dir d (module_file w)"
  let ?fs = "s @ ''_'' @ strftime (now w) @ ''.log''"
  let ?ft = "t @ ''_'' @ strftime (now w) @ ''.log''"
  from create_session_log_Inr [OF rw]
  have p: "p = PosixPath (is_absolute ?dir) (parts ?dir @ [?fs])"
    by (simp only: Path_filename [OF ns] joinpath_def path.sel if_False)
  from create_session_log_Inr [OF rv]
  have q: "q = PosixPath (is_absolute ?dir) (parts ?dir @ [?ft])"
    by (simp only: mf ts Path_filename [OF nt] joinpath_def path.sel if_False)
  from session_filename_inj [OF ne] have "?fs \<noteq> ?ft" .
  then show "p \<noteq> q" unfolding p q by simp
qed

lemma linux_host_strftime: "strftime (now linux_host) = ''20240102_030405''"
  by (simp add: linux_host_def strftime_def pad2_def pad4_def digit_def)

lemma later_host_strftime: "strftime (now later_host) = ''20240102_030405''"
  by (simp add: later_host_def linux_host_def strftime_def pad2_def pad4_def digit_def)

lemma Path_examples:
  "Path ''./a_20240102_030405.log'' = PosixPath False [''a_20240102_030405.log'']"
  "Path ''a_20240102_030405.log'' = PosixPath False [''a_20240102_030405.log'']"
  "Path ''batch_analysis_20240102_030405.log''
     = PosixPath False [''batch_analysis_20240102_030405.log'']"
  "Path ''realtime_20240102_030405.log'' = PosixPath False [''realtime_20240102_030405.log'']"
  "Path ''d'' = PosixPath False [''d'']"
  by (simp_all add: Path_def)

lemma linux_host_mkdir_d:
  "mkdir (PosixPath False [''d'']) linux_host
     = (Inr (), linux_host\<lparr>fs_dirs := insert (PosixPath False [''d'']) (fs_dirs linux_host)\<rparr>)"
  by (simp add: mkdir_def is_dir_def is_file_def Let_def linux_host_def)

lemma later_host_mkdir_d:
  "mkdir (PosixPath False [''d'']) later_host
     = (Inr (), later_host\<lparr>fs_dirs := insert (PosixPath False [''d'']) (fs_dirs later_host)\<rparr>)"
  by (simp add: mkdir_def is_dir_def is_file_def Let_def later_host_def linux_host_def)

lemma session_runs:
  "fst (create_session_log ''batch_analysis'' (Some ''d'') linux_host)
     = Inr (PosixPath False [''d'', ''batch_analysis_20240102_030405.log''])"
  "fst (create_session_log ''batch_analysis'' (Some ''d'') later_host)
     = Inr (PosixPath False [''d'', ''batch_analysis_20240102_030405.log''])"
  "fst (create_session_log ''realtime'' (Some ''d'') later_host)
     = Inr (PosixPath False [''d'', ''realtime_20240102_030405.log''])"
  by (simp_all add: create_session_log_def Path_examples linux_host_mkdir_d later_host_mkdir_d
      linux_host_strftime later_host_strftime joinpath_def)

theorem session_log_paths_witness:
  "platform linux_host \<noteq> ''win32'' \<and> platform later_host \<noteq> ''win32''
   \<and> same_second (now later_host) (now linux_host)
   \<and> now later_host \<noteq> now linux_host
   \<and> module_file later_host = module_file linux_host
   \<and> CHR ''/'' \<notin> set ''batch_analysis'' \<and> CHR ''/'' \<notin> set ''realtime''
   \<and> fst (create_session_log ''batch_analysis'' (Some ''d'') linux_host)
       = fst (create_session_log ''batch_analysis'' (Some ''d'') later_host)
   \<and> PosixPath False [''d'', ''batch_analysis_20240102_030405.log'']
       \<noteq> PosixPath False [''d'', ''realtime_20240102_030405.log'']
   \<and> fs_files (snd (create_session_log ''batch_analysis'' (Some ''d'') linux_host))
       = fs_files linux_host"
proof -
  let ?p = "PosixPath False [''d'', ''batch_analysis_20240102_030405.log'']"
  let ?q = "PosixPath False [''d'', ''realtime_20240102_030405.log'']"
  have pl: "platform linux_host \<noteq> ''win32''" by (simp add: linux_host_def)
  have pv: "platform later_host \<noteq> ''win32''" by (simp add: later_host_def linux_host_def)
  have ss: "same_second (now later_host) (now linux_host)"
    by (simp add: same_second_def later_host_def)
  have nn: "now later_host \<noteq> now linux_host"
    by (simp add: later_host_def linux_host_def)
  have mf: "module_file later_host = module_file linux_host"
    by (simp add: later_host_def)
  have s1: "CHR ''/'' \<notin> set ''batch_analysis''" by simp
  have s2: "CHR ''/'' \<notin> set ''realtime''" by simp
  have ne: "''batch_analysis'' \<noteq> ''realtime''" by simp
  note r1 = fst_run [OF session_runs(1)]
  note r2 = fst_run [OF session_runs(2)]
  note r3 = fst_run [OF session_runs(3)]
  note T = session_log_paths [of "''batch_analysis''" "Some ''d''" linux_host]
  note files = T [THEN conjunct1]
  from T [THEN conjunct2, THEN conjunct2, rule_format, of later_host ?p _ "''realtime''" ?q]
    pl pv r1 r3 mf ss ne s1 s2
  have d: "?p \<noteq> ?q" by blast
  have e: "fst (create_session_log ''batch_analysis'' (Some ''d'') linux_host)
             = fst (create_session_log ''batch_analysis'' (Some ''d'') later_host)"
    by (simp only: session_runs)
  from pl pv ss nn mf s1 s2 e d files show ?thesis by (intro conjI)
qed

text \<open>
  The claim as first stated fails for the labels \<^verbatim>\<open>a\<close> and \<^verbatim>\<open>./a\<close>: \<^verbatim>\<open>pathlib\<close> drops the
  segment \<^verbatim>\<open>.\<close>, and both calls return the same path.
\<close>

theorem session_labels_counterexample:
  "''a'' \<noteq> ''./a''
   \<and> fst (create_session_log ''a'' (Some ''d'') linux_host)
       = Inr (PosixPath False [''d'', ''a_20240102_030405.log''])
   \<and> fst (create_session_log ''./a'' (Some ''d'') linux_host)
       = Inr (PosixPath False [''d'', ''a_20240102_030405.log''])"
  by (simp add: create_session_log_def Path_examples linux_host_mkdir_d linux_host_strftime
      joinpath_def)

subsection \<open>A log directory that cannot be created or written\<close>

lemma is_dir_loggerDict [simp]: "is_dir (w\<lparr>loggerDict := L\<rparr>) p = is_dir w p"
  by (simp add: is_dir_def)

lemma is_file_loggerDict [simp]: "is_file (w\<lparr>loggerDict := L\<rparr>) p = is_file w p"
  by (simp add: is_file_def)

lemma mkdir_rev_loggerDict:
  "mkdir_rev a rp (w\<lparr>loggerDict := L\<rparr>)
     = (fst (mkdir_rev a rp w), (snd (mkdir_rev a rp w))\<lparr>loggerDict := L\<rparr>)"
proof (induction rp)
  case Nil
  show ?case by simp
next
  case (Cons s rest)
  obtain r0 w0 where rec: "mkdir_rev a rest w = (r0, w0)" by (cases "mkdir_rev a rest w")
  with Cons.IH have rec': "mkdir_rev a rest (w\<lparr>loggerDict := L\<rparr>) = (r0, w0\<lparr>loggerDict := L\<rparr>)"
    by simp
  show ?case
    by (cases r0) (simp_all add: rec rec' Let_def)
qed

lemma mkdir_loggerDict:
  "mkdir p w = (r, w') \<Longrightarrow> mkdir p (w\<lparr>loggerDict := L\<rparr>) = (r, w'\<lparr>loggerDict := L\<rparr>)"
  unfolding mkdir_def by (simp add: mkdir_rev_loggerDict)

lemma open_append_loggerDict:
  "open_append p w = (r, w') \<Longrightarrow> open_append p (w\<lparr>loggerDict := L\<rparr>) = (r, w'\<lparr>loggerDict := L\<rparr>)"
  by (auto simp: open_append_def split: if_splits option.splits)

text \<open>
  Claim C6, as amended. When creating the log directory fails, or when opening one of the
  two log files in it fails, \<^verbatim>\<open>setup_logging\<close> raises that error to its caller, and so
  does \<^verbatim>\<open>get_logger\<close>: nothing is written to standard output and no logger is returned.
  The logger registered under the module name is left with its level set and with the
  handlers attached before the failure: none when the directory could not be created;
  the console handler, if one was asked for, when the general file could not be opened;
  that and the handler of the general file when the errors-only file could not be opened.
\<close>

theorem log_dir_failure_raises:
  "(\<forall>e wd.
      mkdir (determine_log_dir (log_dir args) w) w = (Inl e, wd) \<longrightarrow>
        fst (setup_logging n args w) = Inl e
        \<and> stdout (snd (setup_logging n args w)) = stdout w
        \<and> (\<exists>lg. loggerDict (snd (setup_logging n args w)) n = Some lg
                 \<and> level lg = level_number (determine_log_level (log_level args) w)
                 \<and> handlers lg = [])
        \<and> (\<forall>kw. args = get_logger_args n kw w \<longrightarrow> fst (get_logger n kw w) = Inl e))
   \<and> (\<forall>e u wd wf.
        mkdir (determine_log_dir (log_dir args) w) w = (Inr u, wd)
        \<and> truthy (log_to_file args)
        \<and> open_append (general_log_path n args w) wd = (Inl e, wf) \<longrightarrow>
          fst (setup_logging n args w) = Inl e
          \<and> stdout (snd (setup_logging n args w)) = stdout w
          \<and> (\<exists>lg. loggerDict (snd (setup_logging n args w)) n = Some lg
                   \<and> level lg = level_number (determine_log_level (log_level args) w)
                   \<and> handlers lg
                       = (if log_to_console args
                          then [console_handler (determine_log_level (log_level args) w)]
                          else []))
          \<and> (\<forall>kw. args = get_logger_args n kw w \<longrightarrow> fst (get_logger n kw w) = Inl e))
   \<and> (\<forall>e u wd u' wf wg.
        mkdir (determine_log_dir (log_dir args) w) w = (Inr u, wd)
        \<and> truthy (log_to_file args)
        \<and> open_append (general_log_path n args w) wd = (Inr u', wf)
        \<and> open_append (error_log_path n args w) wf = (Inl e, wg) \<longrightarrow>
          fst (setup_logging n args w) = Inl e
          \<and> stdout (snd (setup_logging n args w)) = stdout w
          \<and> (\<exists>lg. loggerDict (snd (setup_logging n args w)) n = Some lg
                   \<and> level lg = level_number (determine_log_level (log_level args) w)
                   \<and> handlers lg
                       = (if log_to_console args
                          then [console_handler (determine_log_level (log_level args) w)]
                          else [])
                         @ [file_handler (general_log_path n args w)
                              (determine_log_level (log_level args) w)])
          \<and> (\<forall>kw. args = get_logger_args n kw w \<longrightarrow> fst (get_logger n kw w) = Inl e))"
proof -
  obtain lg0 w0 where g: "getLogger n w = (lg0, w0)" by (cases "getLogger n w")
  then obtain L where w0: "w0 = w\<lparr>loggerDict := L\<rparr>" by (blast dest: getLogger_frame)
  let ?lvl = "determine_log_level (log_level args) w"
  let ?dir = "determine_log_dir (log_dir args) w"
  let ?gp = "general_log_path n args w"
  let ?ep = "error_log_path n args w"
  let ?lg1 = "lg0\<lparr>level := level_number ?lvl, handlers := []\<rparr>"
  let ?lg2 = "if log_to_console args then addHandler (console_handler ?lvl) ?lg1 else ?lg1"
  let ?lg3 = "addHandler (file_handler ?gp ?lvl) ?lg2"
  have via: "fst (setup_logging n args w) = Inl e \<Longrightarrow>
               \<forall>kw. args = get_logger_args n kw w \<longrightarrow> fst (get_logger n kw w) = Inl e" for e
    by (auto simp: get_logger_def)
  have A: "fst (setup_logging n args w) = Inl e
        \<and> stdout (snd (setup_logging n args w)) = stdout w
        \<and> (\<exists>lg. loggerDict (snd (setup_logging n args w)) n = Some lg
                 \<and> level lg = level_number ?lvl \<and> handlers lg = [])
        \<and> (\<forall>kw. args = get_logger_args n kw w \<longrightarrow> fst (get_logger n kw w) = Inl e)"
    if m: "mkdir ?dir w = (Inl e, wd)" for e wd
  proof -
    from mkdir_frame [OF m] obtain D where wd: "wd = w\<lparr>fs_dirs := D\<rparr>" by blast
    have run: "setup_logging n args w = (Inl e, wd\<lparr>loggerDict := L(n \<mapsto> ?lg1)\<rparr>)"
      by (simp add: setup_logging_def Let_def g w0 store_def mkdir_loggerDict [OF m])
    with wd via [of e] show ?thesis by simp
  qed
  have B: "fst (setup_logging n args w) = Inl e
          \<and> stdout (snd (setup_logging n args w)) = stdout w
          \<and> (\<exists>lg. loggerDict (snd (setup_logging n args w)) n = Some lg
                   \<and> level lg = level_number ?lvl
                   \<and> handlers lg = (if log_to_console args then [console_handler ?lvl] else []))
          \<and> (\<forall>kw. args = get_logger_args n kw w \<longrightarrow> fst (get_logger n kw w) = Inl e)"
    if m: "mkdir ?dir w = (Inr u, wd)" and t: "truthy (log_to_file args)"
      and o: "open_append ?gp wd = (Inl e, wf)" for e u wd wf
  proof -
    from mkdir_frame [OF m] obtain D where wd: "wd = w\<lparr>fs_dirs := D\<rparr>" by blast
    from open_append_frame [OF o] obtain F where wf: "wf = wd\<lparr>fs_files := F\<rparr>" by blast
    have run: "setup_logging n args w = (Inl e, wf\<lparr>loggerDict := L(n \<mapsto> ?lg2)\<rparr>)"
      using t
      by (simp add: setup_logging_def Let_def g w0 store_def mkdir_loggerDict [OF m]
          open_append_loggerDict [OF o, unfolded general_log_path_def])
    with wd wf via [of e] show ?thesis by (simp add: addHandler_def)
  qed
  have C: "fst (setup_logging n args w) = Inl e
          \<and> stdout (snd (setup_logging n args w)) = stdout w
          \<and> (\<exists>lg. loggerDict (snd (setup_logging n args w)) n = Some lg
                   \<and> level lg = level_number ?lvl
                   \<and> handlers lg = (if log_to_console args then [console_handler ?lvl] else [])
                                     @ [file_handler ?gp ?lvl])
          \<and> (\<forall>kw. args = get_logger_args n kw w \<longrightarrow> fst (get_logger n kw w) = Inl e)"
    if m: "mkdir ?dir w = (Inr u, wd)" and t: "truthy (log_to_file args)"
      and o: "open_append ?gp wd = (Inr u', wf)" and o': "open_append ?ep wf = (Inl e, wg)"
    for e u wd u' wf wg
  proof -
    from mkdir_frame [OF m] obtain D where wd: "wd = w\<lparr>fs_dirs := D\<rparr>" by blast
    from open_append_frame [OF o] obtain F where wf: "wf = wd\<lparr>fs_files := F\<rparr>" by blast
    from open_append_frame [OF o'] obtain F' where wg: "wg = wf\<lparr>fs_files := F'\<rparr>" by blast
    have run: "setup_logging n args w = (Inl e, wg\<lparr>loggerDict := L(n \<mapsto> ?lg3)\<rparr>)"
      using t
      by (simp add: setup_logging_def Let_def g w0 store_def mkdir_loggerDict [OF m]
          open_append_loggerDict [OF o, unfolded general_log_path_def]
          open_append_loggerDict [OF o', unfolded error_log_path_def]
          general_log_path_def)
    with wd wf wg via [of e] show ?thesis by (simp add: addHandler_def general_log_path_def)
  qed
  from A B C show ?thesis by blast
qed

lemma denied_mkdir:
  "mkdir (determine_log_dir (log_dir console_only) denied_host) denied_host
     = (Inl PermissionError, denied_host)"
  by (simp add: denied_host_def linux_host_def console_only_def model_defs)

lemma readonly_mkdir:
  "mkdir (determine_log_dir (log_dir console_and_files) readonly_host) readonly_host
     = (Inr (), readonly_host)"
  by (simp add: readonly_host_def linux_host_def console_and_files_def model_defs
      general_log_path_def error_log_path_def)

lemma readonly_open:
  "open_append (general_log_path ''batch'' console_and_files readonly_host) readonly_host
     = (Inl PermissionError, readonly_host)"
  by (simp add: readonly_host_def linux_host_def console_and_files_def model_defs
      general_log_path_def error_log_path_def)

lemma error_file_denied_mkdir:
  "mkdir (determine_log_dir (log_dir console_and_files) error_file_denied_host)
       error_file_denied_host
     = (Inr (), error_file_denied_host\<lparr>fs_dirs := insert (PosixPath True [''app'', ''logs''])
                                                   (fs_dirs error_file_denied_host)\<rparr>)"
  by (simp add: error_file_denied_host_def linux_host_def console_and_files_def model_defs
      general_log_path_def error_log_path_def)

lemma error_file_denied_open:
  "open_append (general_log_path ''batch'' console_and_files error_file_denied_host)
       (error_file_denied_host\<lparr>fs_dirs := insert (PosixPath True [''app'', ''logs''])
                                            (fs_dirs error_file_denied_host)\<rparr>)
     = (Inr (), error_file_denied_host
          \<lparr>fs_dirs := insert (PosixPath True [''app'', ''logs'']) (fs_dirs error_file_denied_host),
           fs_files := [PosixPath True [''app'', ''logs'', ''lfn_batch.log''] \<mapsto> []]\<rparr>)"
  by (simp add: error_file_denied_host_def linux_host_def console_and_files_def model_defs
      general_log_path_def error_log_path_def)

lemma error_file_denied_open_error:
  "open_append (error_log_path ''batch'' console_and_files error_file_denied_host)
       (error_file_denied_host
          \<lparr>fs_dirs := insert (PosixPath True [''app'', ''logs'']) (fs_dirs error_file_denied_host),
           fs_files := [PosixPath True [''app'', ''logs'', ''lfn_batch.log''] \<mapsto> []]\<rparr>)
     = (Inl PermissionError, error_file_denied_host
          \<lparr>fs_dirs := insert (PosixPath True [''app'', ''logs'']) (fs_dirs error_file_denied_host),
           fs_files := [PosixPath True [''app'', ''logs'', ''lfn_batch.log''] \<mapsto> []]\<rparr>)"
  by (simp add: error_file_denied_host_def linux_host_def console_and_files_def model_defs
      general_log_path_def error_log_path_def)

lemma batch_args:
  "console_and_files = get_logger_args ''batch'' defaults readonly_host"
  "console_and_files = get_logger_args ''batch'' defaults error_file_denied_host"
  by (simp_all add: console_and_files_def get_logger_args_def defaults_def main_modules_def
      env_truthy_def readonly_host_def error_file_denied_host_def linux_host_def model_defs)

theorem log_dir_failure_raises_witness:
  "(mkdir (determine_log_dir (log_dir console_only) denied_host) denied_host
      = (Inl PermissionError, denied_host)
    \<and> console_only = get_logger_args ''tool'' defaults denied_host
    \<and> fst (setup_logging ''tool'' console_only denied_host) = Inl PermissionError
    \<and> stdout (snd (setup_logging ''tool'' console_only denied_host)) = stdout denied_host
    \<and> (\<exists>lg. loggerDict (snd (setup_logging ''tool'' console_only denied_host)) ''tool'' = Some lg
             \<and> level lg = level_number (determine_log_level (log_level console_only) denied_host)
             \<and> handlers lg = [])
    \<and> fst (get_logger ''tool'' defaults denied_host) = Inl PermissionError)
   \<and> (mkdir (determine_log_dir (log_dir console_and_files) readonly_host) readonly_host
        = (Inr (), readonly_host)
      \<and> truthy (log_to_file console_and_files)
      \<and> open_append (general_log_path ''batch'' console_and_files readonly_host) readonly_host
          = (Inl PermissionError, readonly_host)
      \<and> console_and_files = get_logger_args ''batch'' defaults readonly_host
      \<and> fst (setup_logging ''batch'' console_and_files readonly_host) = Inl PermissionError
      \<and> stdout (snd (setup_logging ''batch'' console_and_files readonly_host))
          = stdout readonly_host
      \<and> (\<exists>lg. loggerDict (snd (setup_logging ''batch'' console_and_files readonly_host)) ''batch''
                 = Some lg
               \<and> level lg
                   = level_number (determine_log_level (log_level console_and_files) readonly_host)
               \<and> handlers lg
                   = (if log_to_console console_and_files
                      then [console_handler
                              (determine_log_level (log_level console_and_files) readonly_host)]
                      else []))
      \<and> fst (get_logger ''batch'' defaults readonly_host) = Inl PermissionError)
   \<and> (truthy (log_to_file console_and_files)
      \<and> console_and_files = get_logger_args ''batch'' defaults error_file_denied_host
      \<and> fst (setup_logging ''batch'' console_and_files error_file_denied_host)
          = Inl PermissionError
      \<and> stdout (snd (setup_logging ''batch'' console_and_files error_file_denied_host))
          = stdout error_file_denied_host
      \<and> (\<exists>lg. loggerDict (snd (setup_logging ''batch'' console_and_files error_file_denied_host))
                   ''batch'' = Some lg
               \<and> level lg
                   = level_number
                       (determine_log_level (log_level console_and_files) error_file_denied_host)
               \<and> handlers lg
                   = (if log_to_console console_and_files
                      then [console_handler
                              (determine_log_level (log_level console_and_files)
                                 error_file_denied_host)]
                      else [])
                     @ [file_handler
                          (general_log_path ''batch'' console_and_files error_file_denied_host)
                          (determine_log_level (log_level console_and_files)
                             error_file_denied_host)])
      \<and> fst (get_logger ''batch'' defaults error_file_denied_host) = Inl PermissionError)"
proof -
  have t: "truthy (log_to_file console_and_files)"
    by (simp add: console_and_files_def)
  have a: "console_only = get_logger_args ''tool'' defaults denied_host"
    by (simp add: console_only_def get_logger_args_def defaults_def main_modules_def
        env_truthy_def denied_host_def linux_host_def model_defs)
  note A = log_dir_failure_raises [where args = console_only and w = denied_host
      and n = "''tool''", THEN conjunct1, rule_format, OF denied_mkdir]
  note a1 = A [THEN conjunct1]
  note a2 = A [THEN conjunct2, THEN conjunct1]
  note a3 = A [THEN conjunct2, THEN conjunct2, THEN conjunct1]
  note a4 = A [THEN conjunct2, THEN conjunct2, THEN conjunct2, rule_format, OF a]
  from denied_mkdir a a1 a2 a3 a4 have first:
    "mkdir (determine_log_dir (log_dir console_only) denied_host) denied_host
      = (Inl PermissionError, denied_host)
    \<and> console_only = get_logger_args ''tool'' defaults denied_host
    \<and> fst (setup_logging ''tool'' console_only denied_host) = Inl PermissionError
    \<and> stdout (snd (setup_logging ''tool'' console_only denied_host)) = stdout denied_host
    \<and> (\<exists>lg. loggerDict (snd (setup_logging ''tool'' console_only denied_host)) ''tool'' = Some lg
             \<and> level lg = level_number (determine_log_level (log_level console_only) denied_host)
             \<and> handlers lg = [])
    \<and> fst (get_logger ''tool'' defaults denied_host) = Inl PermissionError"
    by (intro conjI)
  note B = log_dir_failure_raises [where args = console_and_files and w = readonly_host
      and n = "''batch''", THEN conjunct2, THEN conjunct1, rule_format,
      OF conjI [OF readonly_mkdir conjI [OF t readonly_open]]]
  note b1 = B [THEN conjunct1]
  note b2 = B [THEN conjunct2, THEN conjunct1]
  note b3 = B [THEN conjunct2, THEN conjunct2, THEN conjunct1]
  note b4 = B [THEN conjunct2, THEN conjunct2, THEN conjunct2, rule_format, OF batch_args(1)]
  from readonly_mkdir t readonly_open batch_args(1) b1 b2 b3 b4 have second:
    "mkdir (determine_log_dir (log_dir console_and_files) readonly_host) readonly_host
        = (Inr (), readonly_host)
      \<and> truthy (log_to_file console_and_files)
      \<and> open_append (general_log_path ''batch'' console_and_files readonly_host) readonly_host
          = (Inl PermissionError, readonly_host)
      \<and> console_and_files = get_logger_args ''batch'' defaults readonly_host
      \<and> fst (setup_logging ''batch'' console_and_files readonly_host) = Inl PermissionError
      \<and> stdout (snd (setup_logging ''batch'' console_and_files readonly_host))
          = stdout readonly_host
      \<and> (\<exists>lg. loggerDict (snd (setup_logging ''batch'' console_and_files readonly_host)) ''batch''
                 = Some lg
               \<and> level lg
                   = level_number (determine_log_level (log_level console_and_files) readonly_host)
               \<and> handlers lg
                   = (if log_to_console console_and_files
                      then [console_handler
                              (determine_log_level (log_level console_and_files) readonly_host)]
                      else []))
      \<and> fst (get_logger ''batch'' defaults readonly_host) = Inl PermissionError"
    by (intro conjI)
  note C = log_dir_failure_raises [where args = console_and_files
      and w = error_file_denied_host and n = "''batch''", THEN conjunct2, THEN conjunct2,
      rule_format,
      OF conjI [OF error_file_denied_mkdir
                   conjI [OF t conjI [OF error_file_denied_open error_file_denied_open_error]]]]
  note c1 = C [THEN conjunct1]
  note c2 = C [THEN conjunct2, THEN conjunct1]
  note c3 = C [THEN conjunct2, THEN conjunct2, THEN conjunct1]
  note c4 = C [THEN conjunct2, THEN conjunct2, THEN conjunct2, rule_format, OF batch_args(2)]
  from t batch_args(2) c1 c2 c3 c4 have third:
    "truthy (log_to_file console_and_files)
      \<and> console_and_files = get_logger_args ''batch'' defaults error_file_denied_host
      \<and> fst (setup_logging ''batch'' console_and_files error_file_denied_host)
          = Inl PermissionError
      \<and> stdout (snd (setup_logging ''batch'' console_and_files error_file_denied_host))
          = stdout error_file_denied_host
      \<and> (\<exists>lg. loggerDict (snd (setup_logging ''batch'' console_and_files error_file_denied_host))
                   ''batch'' = Some lg
               \<and> level lg
                   = level_number
                       (determine_log_level (log_level console_and_files) error_file_denied_host)
               \<and> handlers lg
                   = (if log_to_console console_and_files
                      then [console_handler
                              (determine_log_level (log_level console_and_files)
                                 error_file_denied_host)]
                      else [])
                     @ [file_handler
                          (general_log_path ''batch'' console_and_files error_file_denied_host)
                          (determine_log_level (log_level console_and_files)
                             error_file_denied_host)])
      \<and> fst (get_logger ''batch'' defaults error_file_denied_host) = Inl PermissionError"
    by (intro conjI)
  from conjI [OF first conjI [OF second third]] show ?thesis .
qed

text \<open>
  The claim as first stated fails on a host that refuses the directory, for console
  logging alone, and on a host where the directory exists but no file can be created in
  it: the call raises, nothing is reported on the console, and in the second case the
  registered logger keeps its console handler.
\<close>

theorem log_dir_failure_counterexample:
  "fst (setup_logging ''tool'' console_only denied_host) = Inl PermissionError
   \<and> stdout (snd (setup_logging ''tool'' console_only denied_host)) = []
   \<and> fst (get_logger ''tool'' defaults denied_host) = Inl PermissionError
   \<and> fst (get_logger ''batch'' defaults readonly_host) = Inl PermissionError
   \<and> stdout (snd (get_logger ''batch'' defaults readonly_host)) = []
   \<and> loggerDict (snd (get_logger ''batch'' defaults readonly_host)) ''batch''
       = Some \<lparr>name = ''batch'', level = 20, handlers = [console_handler INFO]\<rparr>"
  by (simp add: get_logger_def get_logger_args_def defaults_def main_modules_def
      denied_host_def readonly_host_def linux_host_def console_only_def console_and_files_def
      model_defs DEFAULT_LOG_LEVEL_def)

subsection \<open>The wrapper of log\_function\_call\<close>










end
